theory Spec2Isabelle
  imports Main
begin

section \<open>Python values and built-in operations used by the provider\<close>

text \<open>
  The provider (\<^verbatim>\<open>couchpotato/core/media/show/providers/info/thetvdb.py\<close>) builds
  dictionaries whose values are integers, strings, booleans, lists and nested dictionaries,
  and it returns either such a value or one of the sentinels \<^verbatim>\<open>False\<close>,
  \<^verbatim>\<open>None\<close>, \<^verbatim>\<open>[]\<close>, \<^verbatim>\<open>{}\<close>. A dictionary is an
  association list in the order of the source's dictionary literal.
\<close>

datatype pyval =
    PNone
  | PBool bool
  | PInt int
  | PStr string
  | PList "pyval list"
  | PDict "(string \<times> pyval) list"

text \<open>Python's truth value testing, as used by \<^verbatim>\<open>if v\<close>, \<^verbatim>\<open>x or y\<close>.\<close>

fun truthy :: "pyval \<Rightarrow> bool" where
  "truthy PNone = False"
| "truthy (PBool b) = b"
| "truthy (PInt i) = (i \<noteq> 0)"
| "truthy (PStr s) = (s \<noteq> [])"
| "truthy (PList xs) = (xs \<noteq> [])"
| "truthy (PDict kvs) = (kvs \<noteq> [])"

definition py_or :: "pyval \<Rightarrow> pyval \<Rightarrow> pyval" where
  "py_or a b = (if truthy a then a else b)"

text \<open>
  Attribute values handed out by the show-database client are strings or \<^verbatim>\<open>None\<close>
  (see the docstrings of \<^verbatim>\<open>_parseShow\<close> and \<^verbatim>\<open>_parseEpisode\<close>); they are
  modelled as \<open>string option\<close>.
\<close>

definition opt_py :: "string option \<Rightarrow> pyval" where
  "opt_py x = (case x of None \<Rightarrow> PNone | Some s \<Rightarrow> PStr s)"

definition truthy_opt :: "string option \<Rightarrow> bool" where
  "truthy_opt x = (case x of None \<Rightarrow> False | Some s \<Rightarrow> s \<noteq> [])"

text \<open>\<^verbatim>\<open>x or None\<close> and \<^verbatim>\<open>x or u''\<close> for an attribute value \<open>x\<close>.\<close>

definition or_none :: "string option \<Rightarrow> pyval" where
  "or_none x = (if truthy_opt x then opt_py x else PNone)"

definition or_empty :: "string option \<Rightarrow> string" where
  "or_empty x = (case x of None \<Rightarrow> [] | Some s \<Rightarrow> s)"

text \<open>\<^verbatim>\<open>'%s' % x\<close> for a string or \<^verbatim>\<open>None\<close>.\<close>

definition str_opt :: "string option \<Rightarrow> string" where
  "str_opt x = (case x of None \<Rightarrow> ''None'' | Some s \<Rightarrow> s)"

subsection \<open>Exceptions\<close>

datatype exn =
    tvdb_error
  | IOError
  | tvdb_shownotfound
  | tvdb_attributenotfound
  | ValueError
  | TypeError
  | KeyError
  | UnboundLocalError

text \<open>The clause \<^verbatim>\<open>except (tvdb_exceptions.tvdb_error, IOError), e\<close>.\<close>

definition caught :: "exn \<Rightarrow> bool" where
  "caught e = (e = tvdb_error \<or> e = IOError)"

definition bind :: "exn + 'a \<Rightarrow> ('a \<Rightarrow> exn + 'b) \<Rightarrow> exn + 'b" where
  "bind m f = (case m of Inl e \<Rightarrow> Inl e | Inr x \<Rightarrow> f x)"

subsection \<open>\<^verbatim>\<open>str.split\<close>, \<^verbatim>\<open>str.strip\<close>, \<^verbatim>\<open>int\<close>, \<^verbatim>\<open>str\<close>\<close>

text \<open>
  \<^verbatim>\<open>s.split(c)\<close> for a one-character separator: the empty string gives
  \<^verbatim>\<open>['']\<close>, a separator starts a new segment and any other character joins the
  first segment of what follows (the split of the rest is never the empty list).
\<close>

fun py_split :: "char \<Rightarrow> string \<Rightarrow> string list" where
  "py_split c [] = [[]]"
| "py_split c (x # xs) =
     (if x = c then [] # py_split c xs
      else (case py_split c xs of [] \<Rightarrow> [[x]] | y # ys \<Rightarrow> (x # y) # ys))"

text \<open>\<^verbatim>\<open>s.strip(c)\<close>: drops every leading and every trailing \<open>c\<close>.\<close>

definition py_strip :: "char \<Rightarrow> string \<Rightarrow> string" where
  "py_strip c s = rev (dropWhile (\<lambda>x. x = c) (rev (dropWhile (\<lambda>x. x = c) s)))"

definition is_space :: "char \<Rightarrow> bool" where
  "is_space c = (c \<in> set [CHR '' '', CHR 0x09, CHR 0x0A, CHR 0x0B, CHR 0x0C, CHR 0x0D])"

definition is_digit :: "char \<Rightarrow> bool" where
  "is_digit c = (c \<in> set ''0123456789'')"

text \<open>The value of a decimal digit is its position among the ten digits.\<close>

definition digit_val :: "char \<Rightarrow> nat" where
  "digit_val c = length (takeWhile (\<lambda>d. d \<noteq> c) ''0123456789'')"

definition digit_char :: "nat \<Rightarrow> char" where
  "digit_char d = ''0123456789'' ! d"

definition digits_val :: "string \<Rightarrow> nat" where
  "digits_val ds = foldl (\<lambda>a c. 10 * a + digit_val c) 0 ds"

text \<open>
  \<^verbatim>\<open>int(s)\<close> for a string, base 10: surrounding whitespace is ignored, one sign is
  allowed, at least one digit is required; anything else raises \<^verbatim>\<open>ValueError\<close>
  (\<open>None\<close> here).
\<close>

definition py_int :: "string \<Rightarrow> int option" where
  "py_int s =
     (let t = rev (dropWhile is_space (rev (dropWhile is_space s)));
          neg = (t \<noteq> [] \<and> hd t = CHR ''-'');
          ds = (if t \<noteq> [] \<and> (hd t = CHR ''-'' \<or> hd t = CHR ''+'') then tl t else t)
      in if ds \<noteq> [] \<and> list_all is_digit ds
         then Some (if neg then - int (digits_val ds) else int (digits_val ds))
         else None)"

text \<open>\<^verbatim>\<open>str(n)\<close> for an integer.\<close>

function str_nat :: "nat \<Rightarrow> string" where
  "str_nat n = (if n < 10 then [digit_char n] else str_nat (n div 10) @ [digit_char (n mod 10)])"
  by pat_completeness auto
termination
  by (relation "measure id") auto

declare str_nat.simps [simp del]

definition py_str_int :: "int \<Rightarrow> string" where
  "py_str_int i = (if i < 0 then CHR ''-'' # str_nat (nat (- i)) else str_nat (nat i))"


section \<open>The show-database client and the host\<close>

text \<open>
  The objects returned by the client (\<^verbatim>\<open>tvdb_api\<close>). An episode is a dictionary of
  attributes. A season maps episode numbers to episodes. A show carries its attribute
  dictionary (\<^verbatim>\<open>show['seriesname']\<close> reads it and raises
  \<^verbatim>\<open>tvdb_attributenotfound\<close> for a missing attribute), the season banners stored
  under \<^verbatim>\<open>show.data['_banners']['season']['season']\<close> (\<open>None\<close> when that path
  does not exist) and its seasons by number (\<^verbatim>\<open>show.items()\<close>). A search summary
  is the dictionary of the docstring of \<^verbatim>\<open>search\<close>, with an integer
  \<^verbatim>\<open>'id'\<close> and an optional \<^verbatim>\<open>'aliasnames'\<close>.
\<close>

type_synonym attrs = "(string \<times> string option) list"

type_synonym episode = attrs

type_synonym season = "(int \<times> episode) list"

record tvdb_show =
  data :: attrs
  banners :: "(string \<times> attrs) list option"
  seasons :: "(int \<times> season) list"

record summary =
  s_id :: int
  s_aliasnames :: "string option"

text \<open>
  What the module imports and does not define is a parameter of the model: the helpers
  \<^verbatim>\<open>simplifyString\<close> and \<^verbatim>\<open>toUnicode\<close>, the year of
  \<^verbatim>\<open>datetime.strptime(s, '%Y-%m-%d')\<close> (\<open>None\<close> where it raises), and the client:
  its list of valid languages, its search by name and its lookup by id, both depending on
  the language the client was set up with and both able to raise.
\<close>

record env =
  simplifyString :: "string \<Rightarrow> string"
  toUnicode :: "string \<Rightarrow> string"
  strptime_year :: "string \<Rightarrow> int option"
  valid_languages :: "string list"
  tvdb_search :: "string \<Rightarrow> string option \<Rightarrow> exn + summary list"
  tvdb_getitem :: "string \<Rightarrow> int \<Rightarrow> exn + tvdb_show"

text \<open>Every use of the client is recorded, so that "no client call" can be stated.\<close>

datatype client_call =
    Setup string
  | Search "string option"
  | GetItem int

text \<open>
  The provider's state: the configured API key (\<^verbatim>\<open>self.conf('api_key')\<close>), the
  language of \<^verbatim>\<open>self.tvdb_api_parms\<close>, the host cache and the record of client calls.
\<close>

record state =
  api_key :: string
  language :: string
  cache :: "(string \<times> pyval) list"
  calls :: "client_call list"

definition log_call :: "state \<Rightarrow> client_call \<Rightarrow> state" where
  "log_call st c = st\<lparr>calls := calls st @ [c]\<rparr>"

text \<open>
  Modelled from the spec: the host cache behind \<^verbatim>\<open>getCache\<close> and
  \<^verbatim>\<open>setCache\<close>, which the module inherits and does not define. The spec gives
  \<^verbatim>\<open>get(key) -> optional cached value\<close> and \<^verbatim>\<open>set(key, value)\<close> on plain
  string keys; a key never set reads as \<^verbatim>\<open>None\<close>.
\<close>

definition getCache :: "state \<Rightarrow> string \<Rightarrow> pyval" where
  "getCache st cache_key = (case map_of (cache st) cache_key of None \<Rightarrow> PNone | Some v \<Rightarrow> v)"

definition setCache :: "state \<Rightarrow> string \<Rightarrow> pyval \<Rightarrow> state" where
  "setCache st cache_key v = st\<lparr>cache := (cache_key, v) # cache st\<rparr>"

text \<open>\<^verbatim>\<open>_setup\<close> builds a new client from \<^verbatim>\<open>self.tvdb_api_parms\<close>.\<close>

definition setup_client :: "state \<Rightarrow> state" where
  "setup_client st = log_call st (Setup (language st))"

text \<open>\<^verbatim>\<open>show[key]\<close> for an attribute name.\<close>

definition show_getitem :: "tvdb_show \<Rightarrow> string \<Rightarrow> exn + string option" where
  "show_getitem sh k =
     (case map_of (data sh) k of None \<Rightarrow> Inl tvdb_attributenotfound | Some v \<Rightarrow> Inr v)"

text \<open>\<^verbatim>\<open>d.get(key, default)\<close> on a dictionary of attributes.\<close>

definition dict_get :: "attrs \<Rightarrow> string \<Rightarrow> string option \<Rightarrow> string option" where
  "dict_get d k dflt = (case map_of d k of None \<Rightarrow> dflt | Some v \<Rightarrow> v)"

text \<open>
  \<^verbatim>\<open>isDisabled\<close> evaluates \<^verbatim>\<open>True\<close> or \<^verbatim>\<open>False\<close> as an expression
  statement in either branch and has no \<^verbatim>\<open>return\<close>: it falls off its end and its
  value is \<^verbatim>\<open>None\<close>.
\<close>

definition isDisabled :: "state \<Rightarrow> pyval" where
  "isDisabled st = (if api_key st = [] then PNone else PNone)"

section \<open>Normalisation\<close>

text \<open>The final comprehension \<^verbatim>\<open>dict((k, v) for k, v in d.iteritems() if v)\<close>.\<close>

definition drop_falsy :: "(string \<times> pyval) list \<Rightarrow> (string \<times> pyval) list" where
  "drop_falsy d = filter (\<lambda>(k, v). truthy v) d"

definition images :: "pyval list \<Rightarrow> pyval list \<Rightarrow> pyval" where
  "images poster backdrop =
     PDict [(''poster'', PList poster), (''backdrop'', PList backdrop),
            (''poster_original'', PList []), (''backdrop_original'', PList [])]"

text \<open>\<^verbatim>\<open>try: id = int(x) except: id = None\<close> for an attribute lookup \<open>x\<close>.\<close>

definition int_or_none :: "exn + string option \<Rightarrow> pyval" where
  "int_or_none x =
     (case x of Inr (Some s) \<Rightarrow> (case py_int s of Some i \<Rightarrow> PInt i | None \<Rightarrow> PNone)
      | _ \<Rightarrow> PNone)"

text \<open>The year of a \<^verbatim>\<open>firstaired\<close> value that is not \<^verbatim>\<open>None\<close>, else \<^verbatim>\<open>None\<close>.\<close>

definition year_of :: "env \<Rightarrow> string option \<Rightarrow> pyval" where
  "year_of env firstaired =
     (case firstaired of None \<Rightarrow> PNone
      | Some s \<Rightarrow> (case strptime_year env s of Some y \<Rightarrow> PInt y | None \<Rightarrow> PNone))"

subsection \<open>\<^verbatim>\<open>_parseShow\<close>\<close>

text \<open>
  The dictionary literal of \<^verbatim>\<open>_parseShow\<close>, lines 244 to 290, before empty values
  are dropped. Every attribute is read with \<^verbatim>\<open>show[...]\<close>, only the read of
  \<^verbatim>\<open>'id'\<close> being inside a \<^verbatim>\<open>try\<close>.
\<close>

definition show_data_literal :: "env \<Rightarrow> tvdb_show \<Rightarrow> exn + (string \<times> pyval) list" where
  "show_data_literal env sh =
     bind (show_getitem sh ''poster'') (\<lambda>poster.
     bind (show_getitem sh ''fanart'') (\<lambda>backdrop.
     bind (show_getitem sh ''genre'') (\<lambda>genre.
     bind (show_getitem sh ''firstaired'') (\<lambda>firstaired.
     bind (show_getitem sh ''seriesname'') (\<lambda>seriesname.
     bind (show_getitem sh ''imdb_id'') (\<lambda>imdb_id.
     bind (show_getitem sh ''zap2it_id'') (\<lambda>zap2it_id.
     bind (show_getitem sh ''seriesid'') (\<lambda>seriesid.
     bind (show_getitem sh ''network'') (\<lambda>network.
     bind (show_getitem sh ''networkid'') (\<lambda>networkid.
     bind (show_getitem sh ''airs_dayofweek'') (\<lambda>airs_dayofweek.
     bind (show_getitem sh ''airs_time'') (\<lambda>airs_time.
     bind (show_getitem sh ''runtime'') (\<lambda>runtime.
     bind (show_getitem sh ''contentrating'') (\<lambda>contentrating.
     bind (show_getitem sh ''rating'') (\<lambda>rating.
     bind (show_getitem sh ''ratingcount'') (\<lambda>ratingcount.
     bind (show_getitem sh ''actors'') (\<lambda>actors.
     bind (show_getitem sh ''lastupdated'') (\<lambda>lastupdated.
     bind (show_getitem sh ''status'') (\<lambda>status.
     bind (show_getitem sh ''language'') (\<lambda>lang.
     let genres = (case genre of None \<Rightarrow> []
                   | Some g \<Rightarrow> py_split CHR ''|'' (py_strip CHR ''|'' g));
         year = year_of env firstaired;
         id = int_or_none (show_getitem sh ''id'')
     in Inr
       [(''id'', id),
        (''type'', PStr ''show''),
        (''primary_provider'', PStr ''thetvdb''),
        (''titles'', PList [PStr (or_empty seriesname)]),
        (''original_title'', PStr (or_empty seriesname)),
        (''images'', images (if truthy (or_none poster) then [or_none poster] else [])
                            (if truthy (or_none backdrop) then [or_none backdrop] else [])),
        (''year'', year),
        (''genres'', PList (map PStr genres)),
        (''imdb'', or_none imdb_id),
        (''zap2it_id'', or_none zap2it_id),
        (''seriesid'', or_none seriesid),
        (''network'', or_none network),
        (''networkid'', or_none networkid),
        (''airs_dayofweek'', or_none airs_dayofweek),
        (''airs_time'', or_none airs_time),
        (''firstaired'', or_none firstaired),
        (''released'', or_none firstaired),
        (''runtime'', or_none runtime),
        (''contentrating'', or_none contentrating),
        (''rating'', or_none rating),
        (''ratingcount'', or_none ratingcount),
        (''actors'', or_none actors),
        (''lastupdated'', or_none lastupdated),
        (''status'', or_none status),
        (''language'', or_none lang)]))))))))))))))))))))"

text \<open>\<^verbatim>\<open>show_data['titles'].append(t)\<close>.\<close>

definition append_title :: "(string \<times> pyval) list \<Rightarrow> string \<Rightarrow> (string \<times> pyval) list" where
  "append_title show_data t =
     map (\<lambda>(k, v). if k = ''titles''
                     then (case v of PList ts \<Rightarrow> (k, PList (ts @ [PStr t])) | _ \<Rightarrow> (k, v))
                     else (k, v)) show_data"

text \<open>
  The loop over the results of the second search, lines 298 to 301. The comparison reads
  \<^verbatim>\<open>show_data['id']\<close>, which raises \<^verbatim>\<open>KeyError\<close> when the id was dropped as
  empty; that exception is not among the caught ones.
\<close>

fun alias_loop :: "env \<Rightarrow> (string \<times> pyval) list \<Rightarrow> summary list \<Rightarrow> exn + (string \<times> pyval) list" where
  "alias_loop env show_data [] = Inr show_data"
| "alias_loop env show_data (show_info # raw) =
     (case map_of show_data ''id'' of
        None \<Rightarrow> Inl KeyError
      | Some show_id \<Rightarrow>
          if PInt (s_id show_info) = show_id \<and> truthy_opt (s_aliasnames show_info)
          then alias_loop env
                 (foldl append_title show_data
                    (map (toUnicode env) (py_split CHR ''|'' (or_empty (s_aliasnames show_info)))))
                 raw
          else alias_loop env show_data raw)"

definition parseShow :: "env \<Rightarrow> state \<Rightarrow> tvdb_show \<Rightarrow> (exn + (string \<times> pyval) list) \<times> state" where
  "parseShow env st sh =
     (case show_data_literal env sh of
        Inl e \<Rightarrow> (Inl e, st)
      | Inr literal \<Rightarrow>
          let show_data = drop_falsy literal in
          (case show_getitem sh ''seriesname'' of
             Inl e \<Rightarrow> (Inl e, st)
           | Inr seriesname \<Rightarrow>
               let st1 = log_call st (Search seriesname) in
               (case tvdb_search env (language st) seriesname of
                  Inl e \<Rightarrow> if caught e then (Inr show_data, st1) else (Inl e, st1)
                | Inr raw \<Rightarrow>
                    if raw \<noteq> [] then (alias_loop env show_data raw, st1)
                    else (Inr show_data, st1))))"

subsection \<open>\<^verbatim>\<open>_parseSeason\<close>\<close>

text \<open>
  The scan for a season poster, lines 315 to 321: the first banner whose
  \<^verbatim>\<open>season\<close> is \<^verbatim>\<open>str(number)\<close> and whose two banner types are
  \<^verbatim>\<open>'season'\<close> gives the poster and ends the scan. A banner without a banner type
  raises \<^verbatim>\<open>KeyError\<close>, which the bare \<^verbatim>\<open>except\<close> swallows: the poster
  list stays empty.
\<close>

fun banner_scan :: "string \<Rightarrow> (string \<times> attrs) list \<Rightarrow> pyval list" where
  "banner_scan num [] = []"
| "banner_scan num ((banner_id, banner) # rest) =
     (if dict_get banner ''season'' None = Some num then
        (case map_of banner ''bannertype'' of
           None \<Rightarrow> []
         | Some bannertype \<Rightarrow>
             if bannertype = Some ''season'' then
               (case map_of banner ''bannertype2'' of
                  None \<Rightarrow> []
                | Some bannertype2 \<Rightarrow>
                    if bannertype2 = Some ''season''
                    then [opt_py (dict_get banner ''_bannerpath'' None)]
                    else banner_scan num rest)
             else banner_scan num rest)
      else banner_scan num rest)"

definition parseSeason :: "env \<Rightarrow> tvdb_show \<Rightarrow> int \<times> season \<Rightarrow> exn + (string \<times> pyval) list" where
  "parseSeason env sh season_tuple =
     (let number = fst season_tuple in
      bind (show_getitem sh ''seriesname'') (\<lambda>seriesname.
      let title = toUnicode env (or_empty seriesname @ '' - Season '' @ py_str_int number);
          poster = (case banners sh of None \<Rightarrow> []
                    | Some season_banners \<Rightarrow> banner_scan (py_str_int number) season_banners);
          id = (case show_getitem sh ''id'' of
                  Inr (Some show_id) \<Rightarrow> PStr (show_id @ '':'' @ py_str_int number)
                | _ \<Rightarrow> PNone)
      in bind (show_getitem sh ''id'') (\<lambda>show_id.
         Inr (drop_falsy
           [(''id'', id),
            (''type'', PStr ''season''),
            (''primary_provider'', PStr ''thetvdb''),
            (''titles'', PList [PStr title]),
            (''original_title'', PStr title),
            (''via_thetvdb'', PBool True),
            (''parent_identifier'', or_none show_id),
            (''seasonnumber'', PStr (py_str_int number)),
            (''images'', images poster []),
            (''year'', PNone),
            (''genres'', PNone),
            (''imdb'', PNone)]))))"

subsection \<open>\<^verbatim>\<open>_parseEpisode\<close>\<close>

text \<open>\<^verbatim>\<open>episode[key]\<close>, which raises for a missing attribute.\<close>

definition episode_getitem :: "episode \<Rightarrow> string \<Rightarrow> exn + string option" where
  "episode_getitem ep k =
     (case map_of ep k of None \<Rightarrow> Inl tvdb_attributenotfound | Some v \<Rightarrow> Inr v)"

text \<open>
  The poster is \<^verbatim>\<open>episode.get('filename', [])\<close> and is only tested for truth, where
  the default \<^verbatim>\<open>[]\<close> and \<^verbatim>\<open>None\<close> agree; \<^verbatim>\<open>backdrop\<close> is the empty
  list, so its image list is empty.
\<close>

definition parseEpisode :: "env \<Rightarrow> tvdb_show \<Rightarrow> episode \<Rightarrow> exn + (string \<times> pyval) list" where
  "parseEpisode env sh ep =
     (let poster = dict_get ep ''filename'' None in
      bind (show_getitem sh ''seriesname'') (\<lambda>seriesname.
      let plot = or_empty seriesname @ '' - '' @ str_opt (dict_get ep ''seasonnumber'' (Some ''?''))
                 @ ''x'' @ str_opt (dict_get ep ''episodenumber'' (Some ''?''))
                 @ '' - '' @ str_opt (dict_get ep ''overview'' (Some []));
          year = year_of env (dict_get ep ''firstaired'' None);
          id = int_or_none (episode_getitem ep ''id'')
      in bind (show_getitem sh ''id'') (\<lambda>show_id.
         Inr (drop_falsy
           [(''id'', id),
            (''type'', PStr ''episode''),
            (''primary_provider'', PStr ''thetvdb''),
            (''via_thetvdb'', PBool True),
            (''thetvdb_id'', id),
            (''titles'', PList [opt_py (dict_get ep ''episodename'' (Some []))]),
            (''original_title'', opt_py (dict_get ep ''episodename'' (Some []))),
            (''images'', images (if truthy_opt poster then [opt_py poster] else []) []),
            (''imdb'', opt_py (dict_get ep ''imdb_id'' None)),
            (''runtime'', PNone),
            (''released'', opt_py (dict_get ep ''firstaired'' None)),
            (''year'', year),
            (''plot'', PStr plot),
            (''genres'', PList []),
            (''parent_identifier'', or_none show_id),
            (''seasonnumber'', opt_py (dict_get ep ''seasonnumber'' None)),
            (''episodenumber'', opt_py (dict_get ep ''episodenumber'' None)),
            (''combined_episodenumber'', opt_py (dict_get ep ''combined_episodenumber'' None)),
            (''absolute_number'', opt_py (dict_get ep ''absolute_number'' None)),
            (''combined_season'', opt_py (dict_get ep ''combined_season'' None)),
            (''productioncode'', opt_py (dict_get ep ''productioncode'' None)),
            (''seriesid'', opt_py (dict_get ep ''seriesid'' None)),
            (''seasonid'', opt_py (dict_get ep ''seasonid'' None)),
            (''firstaired'', opt_py (dict_get ep ''firstaired'' None)),
            (''thumb_added'', opt_py (dict_get ep ''thumb_added'' None)),
            (''thumb_height'', opt_py (dict_get ep ''thumb_height'' None)),
            (''thumb_width'', opt_py (dict_get ep ''thumb_width'' None)),
            (''rating'', opt_py (dict_get ep ''rating'' None)),
            (''ratingcount'', opt_py (dict_get ep ''ratingcount'' None)),
            (''epimgflag'', opt_py (dict_get ep ''epimgflag'' None)),
            (''dvd_episodenumber'', opt_py (dict_get ep ''dvd_episodenumber'' None)),
            (''dvd_discid'', opt_py (dict_get ep ''dvd_discid'' None)),
            (''dvd_chapter'', opt_py (dict_get ep ''dvd_chapter'' None)),
            (''dvd_season'', opt_py (dict_get ep ''dvd_season'' None)),
            (''tms_export'', opt_py (dict_get ep ''tms_export'' None)),
            (''writer'', opt_py (dict_get ep ''writer'' None)),
            (''director'', opt_py (dict_get ep ''director'' None)),
            (''gueststars'', opt_py (dict_get ep ''gueststars'' None)),
            (''lastupdated'', opt_py (dict_get ep ''lastupdated'' None)),
            (''language'', opt_py (dict_get ep ''language'' None))]))))"

section \<open>The public operations\<close>

text \<open>
  A public operation ends by returning a value or by an exception that leaves it; the
  state it leaves behind is returned in both cases.
\<close>

type_synonym outcome = "(exn + pyval) \<times> state"

text \<open>\<^verbatim>\<open>int(identifier)\<close> for an identifier that is a string or \<^verbatim>\<open>None\<close>.\<close>

definition int_of_identifier :: "string option \<Rightarrow> exn + int" where
  "int_of_identifier identifier =
     (case identifier of
        None \<Rightarrow> Inl TypeError
      | Some s \<Rightarrow> (case py_int s of None \<Rightarrow> Inl ValueError | Some i \<Rightarrow> Inr i))"

subsection \<open>\<^verbatim>\<open>search\<close>\<close>

definition search_cache_key :: "string \<Rightarrow> int \<Rightarrow> string" where
  "search_cache_key search_string limit =
     ''thetvdb.cache.'' @ search_string @ ''.'' @ py_str_int limit"

text \<open>
  The handler of lines 87 to 89. Its log call reads the local \<^verbatim>\<open>show\<close>, which is
  unbound while the first lookup of the loop has not returned.
\<close>

definition search_handler :: "bool \<Rightarrow> exn \<Rightarrow> exn + pyval" where
  "search_handler show_bound e =
     (if caught e then (if show_bound then Inr (PBool False) else Inl UnboundLocalError)
      else Inl e)"

text \<open>
  The loop of lines 78 to 83 with the code that follows it inside the \<^verbatim>\<open>try\<close>
  (lines 84 to 86), reached at the end of the list and by \<^verbatim>\<open>break\<close>.
\<close>

fun search_loop ::
  "env \<Rightarrow> string \<Rightarrow> int \<Rightarrow> summary list \<Rightarrow> int \<Rightarrow> bool \<Rightarrow> pyval list \<Rightarrow> state \<Rightarrow> outcome" where
  "search_loop env cache_key limit [] nr show_bound results st =
     (Inr (PList results), setCache st cache_key (PList results))"
| "search_loop env cache_key limit (show_info # raw) nr show_bound results st =
     (let st1 = log_call st (GetItem (s_id show_info)) in
      case tvdb_getitem env (language st) (s_id show_info) of
        Inl e \<Rightarrow> (search_handler show_bound e, st1)
      | Inr sh \<Rightarrow>
          (case parseShow env st1 sh of
             (Inl e, st2) \<Rightarrow> (search_handler True e, st2)
           | (Inr show_data, st2) \<Rightarrow>
               if nr + 1 = limit
               then (Inr (PList (results @ [PDict show_data])),
                     setCache st2 cache_key (PList (results @ [PDict show_data])))
               else search_loop env cache_key limit raw (nr + 1) True
                      (results @ [PDict show_data]) st2))"

definition select_language :: "env \<Rightarrow> state \<Rightarrow> string \<Rightarrow> state" where
  "select_language env st lang =
     (if lang \<noteq> language st \<and> lang \<in> set (valid_languages env)
      then setup_client (st\<lparr>language := lang\<rparr>) else st)"

definition search :: "env \<Rightarrow> state \<Rightarrow> string \<Rightarrow> int \<Rightarrow> string \<Rightarrow> outcome" where
  "search env st q limit lang =
     (if truthy (isDisabled st) then (Inr (PBool False), st)
      else
        let st1 = select_language env st lang;
            search_string = simplifyString env q;
            cache_key = search_cache_key search_string limit;
            results = getCache st1 cache_key
        in if \<not> truthy results then
             (let st2 = log_call st1 (Search (Some search_string)) in
              case tvdb_search env (language st1) (Some search_string) of
                Inl e \<Rightarrow> if caught e then (Inr (PBool False), st2) else (Inl e, st2)
              | Inr raw \<Rightarrow>
                  if raw \<noteq> [] then search_loop env cache_key limit raw 0 False [] st2
                  else (Inr (PList []), st2))
           else (Inr results, st1))"

subsection \<open>\<^verbatim>\<open>getShow\<close> and \<^verbatim>\<open>getShowInfo\<close>\<close>

definition getShow :: "env \<Rightarrow> state \<Rightarrow> string option \<Rightarrow> (exn + tvdb_show option) \<times> state" where
  "getShow env st identifier =
     (case int_of_identifier identifier of
        Inl e \<Rightarrow> (Inl e, st)
      | Inr i \<Rightarrow>
          (case tvdb_getitem env (language st) i of
             Inl e \<Rightarrow> (if caught e then Inr None else Inl e, log_call st (GetItem i))
           | Inr sh \<Rightarrow> (Inr (Some sh), log_call st (GetItem i))))"

definition show_cache_key :: "string option \<Rightarrow> string" where
  "show_cache_key identifier = ''thetvdb.cache.'' @ str_opt identifier"

text \<open>
  \<^verbatim>\<open>if show:\<close> tests a dictionary of seasons: a show without seasons is false.
\<close>

definition getShowInfo :: "env \<Rightarrow> state \<Rightarrow> string option \<Rightarrow> outcome" where
  "getShowInfo env st identifier =
     (if \<not> truthy_opt identifier then (Inr PNone, st)
      else
        let cache_key = show_cache_key identifier;
            result = py_or (getCache st cache_key) (PDict [])
        in if truthy result then (Inr result, st)
           else
             (case getShow env st identifier of
                (Inl e, st1) \<Rightarrow> (Inl e, st1)
              | (Inr None, st1) \<Rightarrow> (Inr result, st1)
              | (Inr (Some sh), st1) \<Rightarrow>
                  if seasons sh \<noteq> [] then
                    (case parseShow env st1 sh of
                       (Inl e, st2) \<Rightarrow> (Inl e, st2)
                     | (Inr show_data, st2) \<Rightarrow>
                         (Inr (PDict show_data), setCache st2 cache_key (PDict show_data)))
                  else (Inr result, st1)))"

subsection \<open>\<^verbatim>\<open>getSeasonInfo\<close>\<close>

text \<open>
  The value of the local \<^verbatim>\<open>season_identifier\<close> once the selector has been read:
  \<^verbatim>\<open>None\<close>, a string that was not parsed because it is empty, or the parsed number.
\<close>

datatype selector = SelNone | SelStr string | SelInt int

definition str_selector :: "selector \<Rightarrow> string" where
  "str_selector sel =
     (case sel of SelNone \<Rightarrow> ''None'' | SelStr s \<Rightarrow> s | SelInt n \<Rightarrow> py_str_int n)"

text \<open>\<^verbatim>\<open>params.get(key, None)\<close>: the parameters are a dictionary of strings.\<close>

type_synonym params = "(string \<times> string) list"

text \<open>
  Lines 131 to 133: \<^verbatim>\<open>int(season_identifier.split(':')[1])\<close> for a selector that is
  true, with \<open>None\<close> for the \<^verbatim>\<open>return False\<close> of the bare \<^verbatim>\<open>except\<close>.
\<close>

definition season_selector :: "string option \<Rightarrow> selector option" where
  "season_selector season_identifier =
     (case season_identifier of
        None \<Rightarrow> Some SelNone
      | Some s \<Rightarrow>
          if s \<noteq> [] then
            (case py_split CHR '':'' s of
               a # b # rest \<Rightarrow> map_option SelInt (py_int b)
             | _ \<Rightarrow> None)
          else Some (SelStr s))"

definition season_cache_key :: "string option \<Rightarrow> selector \<Rightarrow> string" where
  "season_cache_key identifier season_identifier =
     ''thetvdb.cache.'' @ str_opt identifier @ ''.'' @ str_selector season_identifier"

text \<open>\<^verbatim>\<open>season_identifier is not None and number == season_identifier\<close>.\<close>

definition selects :: "selector \<Rightarrow> int \<Rightarrow> bool" where
  "selects season_identifier number =
     (case season_identifier of SelInt n \<Rightarrow> number = n | _ \<Rightarrow> False)"

text \<open>The loop of lines 148 to 154 and the two lines that follow it.\<close>

fun season_loop ::
  "env \<Rightarrow> string \<Rightarrow> tvdb_show \<Rightarrow> selector \<Rightarrow> (int \<times> season) list \<Rightarrow> pyval list \<Rightarrow> state \<Rightarrow> outcome" where
  "season_loop env cache_key sh season_identifier [] result st =
     (Inr (PList result), setCache st cache_key (PList result))"
| "season_loop env cache_key sh season_identifier (item # items) result st =
     (if selects season_identifier (fst item) then
        (case parseSeason env sh item of
           Inl e \<Rightarrow> (Inl e, st)
         | Inr season_data \<Rightarrow> (Inr (PDict season_data), setCache st cache_key (PDict season_data)))
      else
        (case parseSeason env sh item of
           Inl e \<Rightarrow> (Inl e, st)
         | Inr season_data \<Rightarrow>
             season_loop env cache_key sh season_identifier items
               (result @ [PDict season_data]) st))"

text \<open>
  The handler of lines 143 to 145 (and of lines 185 to 187): the arguments of its log call
  read the local \<^verbatim>\<open>show\<close>, which the failed assignment of the \<^verbatim>\<open>try\<close> has
  left unbound, so the handler itself raises before its \<^verbatim>\<open>return False\<close>.
\<close>

definition lookup_handler :: "exn \<Rightarrow> exn + pyval" where
  "lookup_handler e = (if caught e then Inl UnboundLocalError else Inl e)"

definition getSeasonInfo :: "env \<Rightarrow> state \<Rightarrow> string option \<Rightarrow> params \<Rightarrow> outcome" where
  "getSeasonInfo env st identifier params =
     (if \<not> truthy_opt identifier then (Inr (PBool False), st)
      else
        (case season_selector (map_of params ''season_identifier'') of
           None \<Rightarrow> (Inr (PBool False), st)
         | Some season_identifier \<Rightarrow>
             let cache_key = season_cache_key identifier season_identifier;
                 result = py_or (getCache st cache_key) (PDict [])
             in if truthy result then (Inr result, st)
                else
                  (case int_of_identifier identifier of
                     Inl e \<Rightarrow> (Inl e, st)
                   | Inr i \<Rightarrow>
                       (case tvdb_getitem env (language st) i of
                          Inl e \<Rightarrow> (lookup_handler e, log_call st (GetItem i))
                        | Inr sh \<Rightarrow>
                            season_loop env cache_key sh season_identifier (seasons sh) []
                              (log_call st (GetItem i))))))"

subsection \<open>\<^verbatim>\<open>getEpisodeInfo\<close>\<close>

text \<open>
  Lines 171 to 175: a selector that is true must split into exactly two parts, the show id
  that replaces \<^verbatim>\<open>identifier\<close> and the season number; \<open>None\<close> stands for the
  \<^verbatim>\<open>return None\<close> of the bare \<^verbatim>\<open>except\<close>.
\<close>

definition episode_selector :: "string option \<Rightarrow> string option \<Rightarrow> (string option \<times> selector) option" where
  "episode_selector identifier season_identifier =
     (case season_identifier of
        None \<Rightarrow> Some (identifier, SelNone)
      | Some s \<Rightarrow>
          if s \<noteq> [] then
            (case py_split CHR '':'' s of
               [a, b] \<Rightarrow> map_option (\<lambda>n. (Some a, SelInt n)) (py_int b)
             | _ \<Rightarrow> None)
          else Some (identifier, SelStr s))"

definition episode_cache_key :: "string option \<Rightarrow> string option \<Rightarrow> selector \<Rightarrow> string" where
  "episode_cache_key identifier episode_identifier season_identifier =
     ''thetvdb.cache.'' @ str_opt identifier @ ''.'' @ str_opt episode_identifier
       @ ''.'' @ str_selector season_identifier"

text \<open>\<^verbatim>\<open>season_identifier is not None and number != season_identifier\<close>.\<close>

definition skips :: "selector \<Rightarrow> int \<Rightarrow> bool" where
  "skips season_identifier number =
     (case season_identifier of SelNone \<Rightarrow> False | SelStr s \<Rightarrow> True | SelInt n \<Rightarrow> number \<noteq> n)"

text \<open>
  \<^verbatim>\<open>episode_identifier is not None and episode['id'] == toUnicode(episode_identifier)\<close>;
  the read of \<^verbatim>\<open>episode['id']\<close> raises for an episode without that attribute.
\<close>

definition is_selected :: "env \<Rightarrow> string option \<Rightarrow> episode \<Rightarrow> exn + bool" where
  "is_selected env episode_identifier ep =
     (case episode_identifier of
        None \<Rightarrow> Inr False
      | Some e \<Rightarrow> bind (episode_getitem ep ''id'') (\<lambda>v. Inr (v = Some (toUnicode env e))))"

text \<open>
  The inner loop of lines 194 to 200 over the episodes of one season: it ends the whole
  operation with the selected episode (\<open>Inl\<close>) or hands the longer list on (\<open>Inr\<close>).
\<close>

fun episode_loop ::
  "env \<Rightarrow> tvdb_show \<Rightarrow> string option \<Rightarrow> episode list \<Rightarrow> pyval list \<Rightarrow> exn + (pyval + pyval list)" where
  "episode_loop env sh episode_identifier [] result = Inr (Inr result)"
| "episode_loop env sh episode_identifier (ep # eps) result =
     bind (is_selected env episode_identifier ep) (\<lambda>selected.
     bind (parseEpisode env sh ep) (\<lambda>episode_data.
       if selected then Inr (Inl (PDict episode_data))
       else episode_loop env sh episode_identifier eps (result @ [PDict episode_data])))"

text \<open>The outer loop of lines 190 to 192 and the two lines that follow it.\<close>

fun episodes_loop ::
  "env \<Rightarrow> string \<Rightarrow> tvdb_show \<Rightarrow> selector \<Rightarrow> string option \<Rightarrow> (int \<times> season) list \<Rightarrow> pyval list
     \<Rightarrow> state \<Rightarrow> outcome" where
  "episodes_loop env cache_key sh season_identifier episode_identifier [] result st =
     (Inr (PList result), setCache st cache_key (PList result))"
| "episodes_loop env cache_key sh season_identifier episode_identifier (item # items) result st =
     (if skips season_identifier (fst item)
      then episodes_loop env cache_key sh season_identifier episode_identifier items result st
      else
        (case episode_loop env sh episode_identifier (map snd (snd item)) result of
           Inl e \<Rightarrow> (Inl e, st)
         | Inr (Inl episode_data) \<Rightarrow> (Inr episode_data, setCache st cache_key episode_data)
         | Inr (Inr result') \<Rightarrow>
             episodes_loop env cache_key sh season_identifier episode_identifier items result' st))"

definition getEpisodeInfo :: "env \<Rightarrow> state \<Rightarrow> string option \<Rightarrow> params \<Rightarrow> outcome" where
  "getEpisodeInfo env st identifier params =
     (let season_identifier = map_of params ''season_identifier'';
          episode_identifier = map_of params ''episode_identifier''
      in if \<not> truthy_opt identifier \<and> season_identifier = None then (Inr (PBool False), st)
         else
           (case episode_selector identifier season_identifier of
              None \<Rightarrow> (Inr PNone, st)
            | Some (show_identifier, season_number) \<Rightarrow>
                let cache_key = episode_cache_key show_identifier episode_identifier season_number;
                    result = py_or (getCache st cache_key) (PDict [])
                in if truthy result then (Inr result, st)
                   else
                     (case int_of_identifier show_identifier of
                        Inl e \<Rightarrow> (Inl e, st)
                      | Inr i \<Rightarrow>
                          (case tvdb_getitem env (language st) i of
                             Inl e \<Rightarrow> (lookup_handler e, log_call st (GetItem i))
                           | Inr sh \<Rightarrow>
                               episodes_loop env cache_key sh season_number episode_identifier
                                 (seasons sh) [] (log_call st (GetItem i))))))"

subsection \<open>The registered events\<close>

text \<open>
  The constructor registers \<^verbatim>\<open>search\<close> for \<^verbatim>\<open>info.search\<close> and
  \<^verbatim>\<open>show.search\<close>, \<^verbatim>\<open>getShowInfo\<close> for \<^verbatim>\<open>show.info\<close>,
  \<^verbatim>\<open>getSeasonInfo\<close> for \<^verbatim>\<open>season.info\<close> and \<^verbatim>\<open>getEpisodeInfo\<close> for
  \<^verbatim>\<open>episode.info\<close>: these four are the public operations.
\<close>

datatype event =
    show_search string int string
  | show_info "string option"
  | season_info "string option" params
  | episode_info "string option" params

fun fire :: "env \<Rightarrow> state \<Rightarrow> event \<Rightarrow> outcome" where
  "fire env st (show_search q limit lang) = search env st q limit lang"
| "fire env st (show_info identifier) = getShowInfo env st identifier"
| "fire env st (season_info identifier params) = getSeasonInfo env st identifier params"
| "fire env st (episode_info identifier params) = getEpisodeInfo env st identifier params"

section \<open>Notions used to state the properties\<close>

text \<open>Every value of a record is true in Python's sense.\<close>

definition all_truthy :: "(string \<times> pyval) list \<Rightarrow> bool" where
  "all_truthy d = list_all (\<lambda>(k, v). truthy v) d"



text \<open>
  The episodes \<^verbatim>\<open>getEpisodeInfo\<close> walks through: those of every season the season
  number does not skip, in the order of the loops.
\<close>

definition visited_episodes :: "selector \<Rightarrow> tvdb_show \<Rightarrow> episode list" where
  "visited_episodes season_identifier sh =
     concat (map (\<lambda>item. if skips season_identifier (fst item) then [] else map snd (snd item))
               (seasons sh))"

section \<open>A concrete client\<close>

text \<open>
  The show of the docstring of \<^verbatim>\<open>_parseShow\<close> with two seasons and three episodes,
  and two more shows that have a name, an id and at most a genre.
\<close>

definition pilot :: episode where
  "pilot = [(''id'', Some ''349232''), (''episodename'', Some ''Pilot''),
            (''seasonnumber'', Some ''1''), (''episodenumber'', Some ''1''),
            (''firstaired'', Some ''2008-01-20''), (''overview'', None)]"

definition gray_matter :: episode where
  "gray_matter = [(''id'', Some ''349238''), (''episodename'', Some ''Gray Matter''),
                      (''seasonnumber'', Some ''1''), (''episodenumber'', Some ''5'')]"

definition seven_thirty_seven :: episode where
  "seven_thirty_seven = [(''id'', Some ''438917''), (''episodename'', Some ''Seven Thirty-Seven''),
                         (''seasonnumber'', Some ''2''), (''episodenumber'', Some ''1'')]"

definition breaking_bad :: tvdb_show where
  "breaking_bad =
     \<lparr>data =
        [(''actors'', Some ''|Bryan Cranston|Aaron Paul|''),
         (''airs_dayofweek'', Some ''Sunday''),
         (''airs_time'', Some ''9:00 PM''),
         (''contentrating'', Some ''TV-MA''),
         (''fanart'', Some ''http://thetvdb.com/banners/fanart/original/81189-28.jpg''),
         (''firstaired'', Some ''2008-01-20''),
         (''genre'', Some ''|Crime|Drama|Suspense|''),
         (''id'', Some ''81189''),
         (''imdb_id'', Some ''tt0903747''),
         (''language'', Some ''en''),
         (''lastupdated'', Some ''1376620212''),
         (''network'', Some ''AMC''),
         (''networkid'', None),
         (''overview'', Some ''Walter White''),
         (''poster'', Some ''http://thetvdb.com/banners/posters/81189-22.jpg''),
         (''rating'', Some ''9.3''),
         (''ratingcount'', Some ''473''),
         (''runtime'', Some ''60''),
         (''seriesid'', Some ''74713''),
         (''seriesname'', Some ''Breaking Bad''),
         (''status'', Some ''Continuing''),
         (''zap2it_id'', Some ''SH01009396'')],
      banners =
        Some [(''30362'', [(''season'', Some ''1''), (''bannertype'', Some ''season''),
                           (''bannertype2'', Some ''season''),
                           (''_bannerpath'', Some ''http://thetvdb.com/banners/seasons/81189-1.jpg'')])],
      seasons = [(1, [(1, pilot), (5, gray_matter)]), (2, [(1, seven_thirty_seven)])]\<rparr>"

definition show_attribute_names :: "string list" where
  "show_attribute_names =
     [''poster'', ''fanart'', ''genre'', ''firstaired'', ''imdb_id'', ''zap2it_id'', ''seriesid'',
      ''network'', ''networkid'', ''airs_dayofweek'', ''airs_time'', ''runtime'',
      ''contentrating'', ''rating'', ''ratingcount'', ''actors'', ''lastupdated'', ''status'',
      ''language'']"

definition plain_show :: "string \<Rightarrow> string \<Rightarrow> string option \<Rightarrow> tvdb_show" where
  "plain_show show_id seriesname genre =
     \<lparr>data = (''id'', Some show_id) # (''seriesname'', Some seriesname) # (''genre'', genre)
              # map (\<lambda>k. (k, None)) show_attribute_names,
      banners = None,
      seasons = []\<rparr>"

definition metastasis :: tvdb_show where
  "metastasis = plain_show ''273859'' ''Metastasis'' (Some ''Drama||Crime'')"

definition twenty_four :: tvdb_show where
  "twenty_four = plain_show ''76290'' ''24'' None"

text \<open>
  The client answers a search for the lower-case name of the first show with the first two
  shows, a search for its name as the database spells it with that show and its aliases,
  and a search for \<^verbatim>\<open>24\<close> with the third show; it knows the three ids. The
  helpers are the identity, which is what they are on the lower-case ASCII strings used
  below.
\<close>

definition client :: env where
  "client =
     \<lparr>simplifyString = (\<lambda>s. s),
      toUnicode = (\<lambda>s. s),
      strptime_year = (\<lambda>s. if s = ''2008-01-20'' then Some 2008 else None),
      valid_languages = [''en'', ''de''],
      tvdb_search = (\<lambda>lang name.
         if name = Some ''breaking bad''
         then Inr [\<lparr>s_id = 81189, s_aliasnames = None\<rparr>, \<lparr>s_id = 273859, s_aliasnames = None\<rparr>]
         else if name = Some ''Breaking Bad''
         then Inr [\<lparr>s_id = 81189, s_aliasnames = Some ''BB|Breaking Bad (2008)''\<rparr>]
         else if name = Some ''24''
         then Inr [\<lparr>s_id = 76290, s_aliasnames = None\<rparr>]
         else Inr []),
      tvdb_getitem = (\<lambda>lang i.
         if i = 81189 then Inr breaking_bad
         else if i = 273859 then Inr metastasis
         else if i = 76290 then Inr twenty_four
         else Inl tvdb_shownotfound)\<rparr>"

text \<open>The same client while the database cannot be reached.\<close>

definition unreachable_client :: env where
  "unreachable_client =
     client\<lparr>tvdb_search := (\<lambda>lang name. Inl tvdb_error),
            tvdb_getitem := (\<lambda>lang i. Inl tvdb_error)\<rparr>"

definition fresh :: state where
  "fresh = \<lparr>api_key = ''7966C02F860586D2'', language = ''en'', cache = [], calls = []\<rparr>"

definition without_api_key :: state where
  "without_api_key = fresh\<lparr>api_key := []\<rparr>"

text \<open>What the three normalisations give for the first show, its first season and its pilot.\<close>

definition breaking_bad_data :: "(string \<times> pyval) list" where
  "breaking_bad_data =
     [(''id'', PInt 81189),
      (''type'', PStr ''show''),
      (''primary_provider'', PStr ''thetvdb''),
      (''titles'', PList [PStr ''Breaking Bad'', PStr ''BB'', PStr ''Breaking Bad (2008)'']),
      (''original_title'', PStr ''Breaking Bad''),
      (''images'',
       PDict [(''poster'', PList [PStr ''http://thetvdb.com/banners/posters/81189-22.jpg'']),
              (''backdrop'', PList [PStr ''http://thetvdb.com/banners/fanart/original/81189-28.jpg'']),
              (''poster_original'', PList []),
              (''backdrop_original'', PList [])]),
      (''year'', PInt 2008),
      (''genres'', PList [PStr ''Crime'', PStr ''Drama'', PStr ''Suspense'']),
      (''imdb'', PStr ''tt0903747''),
      (''zap2it_id'', PStr ''SH01009396''),
      (''seriesid'', PStr ''74713''),
      (''network'', PStr ''AMC''),
      (''airs_dayofweek'', PStr ''Sunday''),
      (''airs_time'', PStr ''9:00 PM''),
      (''firstaired'', PStr ''2008-01-20''),
      (''released'', PStr ''2008-01-20''),
      (''runtime'', PStr ''60''),
      (''contentrating'', PStr ''TV-MA''),
      (''rating'', PStr ''9.3''),
      (''ratingcount'', PStr ''473''),
      (''actors'', PStr ''|Bryan Cranston|Aaron Paul|''),
      (''lastupdated'', PStr ''1376620212''),
      (''status'', PStr ''Continuing''),
      (''language'', PStr ''en'')]"

definition metastasis_data :: "(string \<times> pyval) list" where
  "metastasis_data =
     [(''id'', PInt 273859),
      (''type'', PStr ''show''),
      (''primary_provider'', PStr ''thetvdb''),
      (''titles'', PList [PStr ''Metastasis'']),
      (''original_title'', PStr ''Metastasis''),
      (''images'',
       PDict [(''poster'', PList []), (''backdrop'', PList []),
              (''poster_original'', PList []), (''backdrop_original'', PList [])]),
      (''genres'', PList [PStr ''Drama'', PStr [], PStr ''Crime''])]"

definition twenty_four_data :: "(string \<times> pyval) list" where
  "twenty_four_data =
     [(''id'', PInt 76290),
      (''type'', PStr ''show''),
      (''primary_provider'', PStr ''thetvdb''),
      (''titles'', PList [PStr ''24'']),
      (''original_title'', PStr ''24''),
      (''images'',
       PDict [(''poster'', PList []), (''backdrop'', PList []),
              (''poster_original'', PList []), (''backdrop_original'', PList [])])]"

definition season_data_of :: "string \<Rightarrow> pyval list \<Rightarrow> (string \<times> pyval) list" where
  "season_data_of number poster =
     [(''id'', PStr (''81189:'' @ number)),
      (''type'', PStr ''season''),
      (''primary_provider'', PStr ''thetvdb''),
      (''titles'', PList [PStr (''Breaking Bad - Season '' @ number)]),
      (''original_title'', PStr (''Breaking Bad - Season '' @ number)),
      (''via_thetvdb'', PBool True),
      (''parent_identifier'', PStr ''81189''),
      (''seasonnumber'', PStr number),
      (''images'',
       PDict [(''poster'', PList poster), (''backdrop'', PList []),
              (''poster_original'', PList []), (''backdrop_original'', PList [])])]"

definition season_one_data :: "(string \<times> pyval) list" where
  "season_one_data =
     season_data_of ''1'' [PStr ''http://thetvdb.com/banners/seasons/81189-1.jpg'']"

definition season_two_data :: "(string \<times> pyval) list" where
  "season_two_data = season_data_of ''2'' []"

definition episode_data_of ::
  "int \<Rightarrow> string \<Rightarrow> string \<Rightarrow> string \<Rightarrow> string \<Rightarrow> (string \<times> pyval) list \<Rightarrow> (string \<times> pyval) list" where
  "episode_data_of episode_id title overview seasonnumber episodenumber dated =
     [(''id'', PInt episode_id),
      (''type'', PStr ''episode''),
      (''primary_provider'', PStr ''thetvdb''),
      (''via_thetvdb'', PBool True),
      (''thetvdb_id'', PInt episode_id),
      (''titles'', PList [PStr title]),
      (''original_title'', PStr title),
      (''images'',
       PDict [(''poster'', PList []), (''backdrop'', PList []),
              (''poster_original'', PList []), (''backdrop_original'', PList [])])]
     @ take 2 dated
     @ [(''plot'', PStr (''Breaking Bad - '' @ seasonnumber @ ''x'' @ episodenumber @ '' - '' @ overview)),
        (''parent_identifier'', PStr ''81189''),
        (''seasonnumber'', PStr seasonnumber),
        (''episodenumber'', PStr episodenumber)]
     @ drop 2 dated"

definition pilot_data :: "(string \<times> pyval) list" where
  "pilot_data =
     episode_data_of 349232 ''Pilot'' ''None'' ''1'' ''1''
       [(''released'', PStr ''2008-01-20''), (''year'', PInt 2008),
        (''firstaired'', PStr ''2008-01-20'')]"

definition gray_matter_data :: "(string \<times> pyval) list" where
  "gray_matter_data = episode_data_of 349238 ''Gray Matter'' [] ''1'' ''5'' []"

definition seven_thirty_seven_data :: "(string \<times> pyval) list" where
  "seven_thirty_seven_data = episode_data_of 438917 ''Seven Thirty-Seven'' [] ''2'' ''1'' []"

text \<open>
  The state after a first \<^verbatim>\<open>show.info\<close> for the first show, and the state after a
  first \<^verbatim>\<open>episode.info\<close> for a season the show does not have.
\<close>

definition warm :: state where
  "warm =
     setCache (log_call (log_call fresh (GetItem 81189)) (Search (Some ''Breaking Bad'')))
       ''thetvdb.cache.81189'' (PDict breaking_bad_data)"

definition season_nine :: event where
  "season_nine = episode_info None [(''season_identifier'', ''81189:9'')]"

definition stale :: state where
  "stale = setCache (log_call fresh (GetItem 81189)) ''thetvdb.cache.81189.None.9'' (PList [])"

text \<open>The state after a search for \<^verbatim>\<open>24\<close> with limit 1.\<close>

definition searched :: state where
  "searched =
     setCache (log_call (log_call (log_call fresh (Search (Some ''24''))) (GetItem 76290))
                 (Search (Some ''24'')))
       ''thetvdb.cache.24.1'' (PList [PDict twenty_four_data])"

section \<open>Facts about the built-in operations\<close>

lemma py_split_not_Nil [simp]: "py_split c s \<noteq> []"
  by (induction s) (auto split: list.splits)





lemma py_split_no_sep: "c \<notin> set s \<Longrightarrow> py_split c s = [s]"
  by (induction s) auto

lemma py_split_at_first_sep: "c \<notin> set a \<Longrightarrow> py_split c (a @ c # b) = a # py_split c b"
  by (induction a) auto

lemma digit_char_val: "d < 10 \<Longrightarrow> digit_val (digit_char d) = d"
proof -
  assume "d < 10"
  then have "d \<in> {0,1,2,3,4,5,6,7,8,9}" by auto
  then show ?thesis by (auto simp: digit_val_def digit_char_def)
qed

lemma digit_char_is_digit: "d < 10 \<Longrightarrow> is_digit (digit_char d)"
proof -
  assume "d < 10"
  then have "d \<in> {0,1,2,3,4,5,6,7,8,9}" by auto
  then show ?thesis by (auto simp: is_digit_def digit_char_def)
qed

lemma is_digit_not_space: "is_digit c \<Longrightarrow> \<not> is_space c"
  by (auto simp: is_digit_def is_space_def)

lemma is_digit_not_sign: "is_digit c \<Longrightarrow> c \<noteq> CHR ''-'' \<and> c \<noteq> CHR ''+'' \<and> c \<noteq> CHR '':''"
  by (auto simp: is_digit_def)

lemma digits_val_snoc: "digits_val (ds @ [c]) = 10 * digits_val ds + digit_val c"
  by (simp add: digits_val_def)

lemma str_nat_digits: "str_nat n \<noteq> [] \<and> list_all is_digit (str_nat n) \<and> digits_val (str_nat n) = n"
proof (induction n rule: str_nat.induct)
  case (1 n)
  show ?case
  proof (cases "n < 10")
    case True
    then show ?thesis
      by (subst (1 2 3) str_nat.simps) (simp add: digit_char_is_digit digit_char_val digits_val_def)
  next
    case False
    with 1 have ih: "list_all is_digit (str_nat (n div 10))" "digits_val (str_nat (n div 10)) = n div 10"
      by auto
    have m: "n mod 10 < 10" by simp
    from False ih m show ?thesis
      by (subst (1 2 3) str_nat.simps) (simp add: digit_char_is_digit digit_char_val digits_val_snoc)
  qed
qed

lemma strip_space_digits:
  assumes "ds \<noteq> []" "list_all is_digit ds"
  shows "rev (dropWhile is_space (rev (dropWhile is_space ds))) = ds"
proof -
  from assms have h: "\<not> is_space (hd ds)" "\<not> is_space (last ds)"
    by (auto simp: list_all_iff is_digit_not_space)
  from assms h(1) have "dropWhile is_space ds = ds" by (cases ds) auto
  moreover from assms h(2) have "dropWhile is_space (rev ds) = rev ds"
    by (cases "rev ds") (auto simp: last_rev[symmetric] hd_rev)
  ultimately show ?thesis by simp
qed

lemma py_int_digits:
  assumes "ds \<noteq> []" "list_all is_digit ds"
  shows "py_int ds = Some (int (digits_val ds))"
proof -
  from assms have "hd ds \<noteq> CHR ''-''" "hd ds \<noteq> CHR ''+''"
    by (cases ds; auto dest: is_digit_not_sign)+
  with assms show ?thesis
    by (simp add: py_int_def strip_space_digits Let_def)
qed

lemma py_int_minus_digits:
  assumes "ds \<noteq> []" "list_all is_digit ds"
  shows "py_int (CHR ''-'' # ds) = Some (- int (digits_val ds))"
proof -
  from assms have h: "\<not> is_space (last ds)"
    by (auto simp: list_all_iff is_digit_not_space)
  have "\<not> is_space CHR ''-''" by (simp add: is_space_def)
  then have a: "dropWhile is_space (CHR ''-'' # ds) = CHR ''-'' # ds" by simp
  from assms h have "dropWhile is_space (rev (CHR ''-'' # ds)) = rev (CHR ''-'' # ds)"
    by (cases "rev ds") (auto simp: last_rev[symmetric] hd_rev)
  with a have "rev (dropWhile is_space (rev (dropWhile is_space (CHR ''-'' # ds)))) = CHR ''-'' # ds"
    by (metis rev_rev_ident)
  with assms show ?thesis
    by (simp add: py_int_def Let_def)
qed

lemma py_int_py_str_int: "py_int (py_str_int n) = Some n"
  using str_nat_digits[of "nat n"] str_nat_digits[of "nat (- n)"]
  by (auto simp: py_str_int_def py_int_digits py_int_minus_digits)

lemma py_str_int_no_colon: "CHR '':'' \<notin> set (py_str_int n)"
  using str_nat_digits[of "nat n"] str_nat_digits[of "nat (- n)"]
  by (auto simp: py_str_int_def list_all_iff dest: is_digit_not_sign)

lemma season_selector_canonical:
  assumes "CHR '':'' \<notin> set show_id"
  shows "season_selector (Some (show_id @ '':'' @ py_str_int n)) = Some (SelInt n)"
  using assms py_str_int_no_colon[of n]
  by (simp add: season_selector_def py_split_at_first_sep py_split_no_sep py_int_py_str_int)

lemma episode_selector_canonical:
  assumes "CHR '':'' \<notin> set show_id"
  shows "episode_selector identifier (Some (show_id @ '':'' @ py_str_int n)) = Some (Some show_id, SelInt n)"
  using assms py_str_int_no_colon[of n]
  by (simp add: episode_selector_def py_split_at_first_sep py_split_no_sep py_int_py_str_int)

section \<open>Facts about the normalisations\<close>

lemma bind_Inr_E:
  assumes "bind m f = Inr r"
  obtains x where "m = Inr x" and "f x = Inr r"
  using assms by (cases m) (auto simp: bind_def)

lemma bind_Inr [simp]: "bind (Inr x) f = f x"
  by (simp add: bind_def)

lemma bind_Inl [simp]: "bind (Inl e) f = Inl e"
  by (simp add: bind_def)

lemma all_truthy_drop_falsy: "all_truthy (drop_falsy d)"
  by (induction d) (auto simp: all_truthy_def drop_falsy_def)

lemma all_truthy_append_title: "all_truthy d \<Longrightarrow> all_truthy (append_title d t)"
  by (induction d) (auto simp: all_truthy_def append_title_def split: pyval.splits if_splits)

lemma all_truthy_foldl_append_title: "all_truthy d \<Longrightarrow> all_truthy (foldl append_title d ts)"
  by (induction ts arbitrary: d) (auto simp: all_truthy_append_title)

lemma all_truthy_alias_loop:
  "all_truthy d \<Longrightarrow> alias_loop env d raw = Inr r \<Longrightarrow> all_truthy r"
proof (induction raw arbitrary: d)
  case Nil
  then show ?case by simp
next
  case (Cons show_info raw)
  then show ?case
    by (auto split: option.splits if_splits intro: all_truthy_foldl_append_title)
qed

lemma all_truthy_parseShow:
  assumes "fst (parseShow env st sh) = Inr r"
  shows "all_truthy r"
  using assms
  by (auto simp: parseShow_def Let_def all_truthy_drop_falsy
      split: sum.splits if_splits dest: all_truthy_alias_loop[rotated])

lemma all_truthy_parseSeason:
  assumes "parseSeason env sh t = Inr r"
  shows "all_truthy r"
proof -
  from assms obtain literal where "r = drop_falsy literal"
    unfolding parseSeason_def Let_def
    by (elim bind_Inr_E) auto
  then show ?thesis by (simp add: all_truthy_drop_falsy)
qed

lemma all_truthy_parseEpisode:
  assumes "parseEpisode env sh ep = Inr r"
  shows "all_truthy r"
proof -
  from assms obtain literal where "r = drop_falsy literal"
    unfolding parseEpisode_def Let_def
    by (elim bind_Inr_E) auto
  then show ?thesis by (simp add: all_truthy_drop_falsy)
qed

section \<open>Facts about the cache\<close>

lemma getCache_setCache [simp]: "getCache (setCache st k v) k = v"
  by (simp add: getCache_def setCache_def)

lemma language_setCache [simp]: "language (setCache st k v) = language st"
  by (simp add: setCache_def)

lemma language_log_call [simp]: "language (log_call st c) = language st"
  by (simp add: log_call_def)

lemma cache_log_call [simp]: "cache (log_call st c) = cache st"
  by (simp add: log_call_def)

lemma getCache_log_call [simp]: "getCache (log_call st c) k = getCache st k"
  by (simp add: getCache_def)

lemma parseShow_state:
  assumes "parseShow env st sh = (r, st')"
  shows "language st' = language st \<and> cache st' = cache st"
  using assms
  by (auto simp: parseShow_def Let_def split: sum.splits if_splits)

lemma search_handler_falsy: "search_handler b e = Inr v \<Longrightarrow> \<not> truthy v"
  by (auto simp: search_handler_def split: if_splits)

lemma search_loop_cached:
  assumes "search_loop env key limit raw nr b results st = (Inr v, st')" and "truthy v"
  shows "getCache st' key = v \<and> language st' = language st"
  using assms
proof (induction raw arbitrary: nr b results st)
  case Nil
  then show ?case by auto
next
  case (Cons show_info raw)
  show ?case
  proof (cases "tvdb_getitem env (language st) (s_id show_info)")
    case (Inl e)
    with Cons.prems show ?thesis
      by (auto simp: Let_def dest: search_handler_falsy)
  next
    case (Inr sh)
    obtain r st2 where p: "parseShow env (log_call st (GetItem (s_id show_info))) sh = (r, st2)"
      by (cases "parseShow env (log_call st (GetItem (s_id show_info))) sh")
    then have l: "language st2 = language st"
      using parseShow_state by fastforce
    show ?thesis
    proof (cases r)
      case (Inl e)
      with Cons.prems Inr p show ?thesis
        by (auto simp: Let_def dest: search_handler_falsy)
    next
      case r: (Inr show_data)
      show ?thesis
      proof (cases "nr + 1 = limit")
        case True
        with Cons.prems Inr p r l show ?thesis by (auto simp: Let_def)
      next
        case False
        with Cons.prems Inr p r
        have "search_loop env key limit raw (nr + 1) True (results @ [PDict show_data]) st2 = (Inr v, st')"
          by (auto simp: Let_def)
        from Cons.IH[OF this Cons.prems(2)] l show ?thesis by simp
      qed
    qed
  qed
qed

lemma season_loop_cached:
  "season_loop env key sh sel items result st = (Inr v, st') \<Longrightarrow> st' = setCache st key v"
  by (induction items arbitrary: result) (auto split: if_splits sum.splits)

lemma episodes_loop_cached:
  "episodes_loop env key sh sel eid items result st = (Inr v, st') \<Longrightarrow> st' = setCache st key v"
  by (induction items arbitrary: result) (auto split: if_splits sum.splits)

lemma select_language_idem:
  "select_language env (select_language env st lang) lang = select_language env st lang"
  by (simp add: select_language_def setup_client_def log_call_def)

lemma select_language_stable:
  assumes "language st' = language (select_language env st lang)"
  shows "select_language env st' lang = st'"
  using assms by (auto simp: select_language_def setup_client_def log_call_def)

lemma search_repeat:
  assumes "search env st q limit lang = (Inr v, st')" and "truthy v"
  shows "getCache st' (search_cache_key (simplifyString env q) limit) = v
         \<and> language st' = language (select_language env st lang)"
proof -
  let ?st1 = "select_language env st lang"
  let ?key = "search_cache_key (simplifyString env q) limit"
  show ?thesis
  proof (cases "truthy (getCache ?st1 ?key)")
    case True
    with assms show ?thesis by (auto simp: search_def isDisabled_def Let_def)
  next
    case False
    with assms show ?thesis
      by (auto simp: search_def isDisabled_def Let_def split: sum.splits if_splits
               dest!: search_loop_cached)
  qed
qed

lemma search_twice:
  assumes "search env st q limit lang = (Inr v, st')" and "truthy v"
  shows "search env st' q limit lang = (Inr v, st')"
proof -
  from search_repeat[OF assms] have c: "getCache st' (search_cache_key (simplifyString env q) limit) = v"
    and l: "language st' = language (select_language env st lang)" by auto
  from l have "select_language env st' lang = st'" by (rule select_language_stable)
  with c assms(2) show ?thesis
    by (simp add: search_def isDisabled_def Let_def)
qed

lemma getShowInfo_twice:
  assumes "getShowInfo env st identifier = (Inr v, st')" and "truthy v"
  shows "getShowInfo env st' identifier = (Inr v, st')"
proof -
  from assms have i: "truthy_opt identifier"
    by (auto simp: getShowInfo_def split: if_splits)
  from assms have "getCache st' (show_cache_key identifier) = v"
    by (auto simp: getShowInfo_def Let_def py_or_def split: if_splits prod.splits sum.splits option.splits)
  with i assms(2) show ?thesis
    by (simp add: getShowInfo_def Let_def py_or_def)
qed

lemma getSeasonInfo_twice:
  assumes "getSeasonInfo env st identifier params = (Inr v, st')" and "truthy v"
  shows "getSeasonInfo env st' identifier params = (Inr v, st')"
proof -
  from assms have i: "truthy_opt identifier"
    by (auto simp: getSeasonInfo_def split: if_splits)
  from assms obtain sel where s: "season_selector (map_of params ''season_identifier'') = Some sel"
    by (auto simp: getSeasonInfo_def split: if_splits option.splits)
  from assms i s have "getCache st' (season_cache_key identifier sel) = v"
    by (auto simp: getSeasonInfo_def Let_def py_or_def lookup_handler_def
             split: if_splits sum.splits dest!: season_loop_cached)
  with i s assms(2) show ?thesis
    by (simp add: getSeasonInfo_def Let_def py_or_def)
qed

lemma getEpisodeInfo_twice:
  assumes "getEpisodeInfo env st identifier params = (Inr v, st')" and "truthy v"
  shows "getEpisodeInfo env st' identifier params = (Inr v, st')"
proof -
  let ?s = "map_of params ''season_identifier''"
  let ?e = "map_of params ''episode_identifier''"
  from assms have i: "\<not> (\<not> truthy_opt identifier \<and> ?s = None)"
    by (auto simp: getEpisodeInfo_def Let_def split: if_splits)
  from assms i obtain show_identifier sel where s: "episode_selector identifier ?s = Some (show_identifier, sel)"
    by (auto simp: getEpisodeInfo_def Let_def split: if_splits option.splits)
  from assms i s have "getCache st' (episode_cache_key show_identifier ?e sel) = v"
    by (auto simp: getEpisodeInfo_def Let_def py_or_def lookup_handler_def
             split: if_splits sum.splits dest!: episodes_loop_cached)
  with i s assms(2) show ?thesis
    by (auto simp: getEpisodeInfo_def Let_def py_or_def)
qed

section \<open>The concrete client, evaluated\<close>

lemma py_str_int_1: "py_str_int 1 = ''1''"
  by (simp add: py_str_int_def str_nat.simps digit_char_def)

lemma py_str_int_2: "py_str_int 2 = ''2''"
  by (simp add: py_str_int_def str_nat.simps digit_char_def)

lemmas py_defs = opt_py_def truthy_opt_def or_none_def or_empty_def str_opt_def py_or_def
  caught_def py_strip_def py_int_def is_space_def is_digit_def digits_val_def digit_val_def
  dict_get_def episode_getitem_def drop_falsy_def images_def int_or_none_def
  year_of_def append_title_def Let_def

lemmas data_defs = breaking_bad_data_def metastasis_data_def season_data_of_def
  season_one_data_def season_two_data_def episode_data_of_def pilot_data_def
  gray_matter_data_def seven_thirty_seven_data_def

lemma parseShow_breaking_bad:
  "parseShow client st breaking_bad =
     (Inr breaking_bad_data, log_call st (Search (Some ''Breaking Bad'')))"
  apply (simp add: parseShow_def show_data_literal_def show_getitem_def breaking_bad_def)
  apply (simp add: py_defs data_defs client_def)
  done

lemma parseShow_metastasis:
  "parseShow client st metastasis =
     (Inr metastasis_data, log_call st (Search (Some ''Metastasis'')))"
  apply (simp add: parseShow_def show_data_literal_def show_getitem_def metastasis_def
      plain_show_def show_attribute_names_def)
  apply (simp add: py_defs data_defs client_def)
  done

lemma parseShow_twenty_four:
  "parseShow client st twenty_four = (Inr twenty_four_data, log_call st (Search (Some ''24'')))"
  apply (simp add: parseShow_def show_data_literal_def show_getitem_def twenty_four_def
      plain_show_def show_attribute_names_def)
  apply (simp add: py_defs twenty_four_data_def client_def)
  done

lemma parseSeason_one: "parseSeason client breaking_bad (1, s) = Inr season_one_data"
  apply (simp add: parseSeason_def show_getitem_def breaking_bad_def py_str_int_1)
  apply (simp add: py_defs data_defs client_def)
  done

lemma parseSeason_two: "parseSeason client breaking_bad (2, s) = Inr season_two_data"
  apply (simp add: parseSeason_def show_getitem_def breaking_bad_def py_str_int_2)
  apply (simp add: py_defs data_defs client_def)
  done

lemma parseEpisode_pilot: "parseEpisode client breaking_bad pilot = Inr pilot_data"
  apply (simp add: parseEpisode_def show_getitem_def breaking_bad_def pilot_def)
  apply (simp add: py_defs data_defs client_def)
  done

lemma parseEpisode_gray_matter:
  "parseEpisode client breaking_bad gray_matter = Inr gray_matter_data"
  apply (simp add: parseEpisode_def show_getitem_def breaking_bad_def gray_matter_def)
  apply (simp add: py_defs data_defs client_def)
  done

lemma parseEpisode_seven_thirty_seven:
  "parseEpisode client breaking_bad seven_thirty_seven = Inr seven_thirty_seven_data"
  apply (simp add: parseEpisode_def show_getitem_def breaking_bad_def seven_thirty_seven_def)
  apply (simp add: py_defs data_defs client_def)
  done

subsection \<open>Lookups\<close>

lemma py_str_int_9: "py_str_int 9 = ''9''"
  by (simp add: py_str_int_def str_nat.simps digit_char_def)

lemma py_str_int_12: "py_str_int 12 = ''12''"
  by (simp add: py_str_int_def str_nat.simps digit_char_def)

lemma py_int_81189: "py_int ''81189'' = Some 81189"
  by (simp add: py_int_def is_space_def is_digit_def digits_val_def digit_val_def)

lemma py_int_273859: "py_int ''273859'' = Some 273859"
  by (simp add: py_int_def is_space_def is_digit_def digits_val_def digit_val_def)

lemma py_int_9: "py_int ''9'' = Some 9"
  by (simp add: py_int_def is_space_def is_digit_def digits_val_def digit_val_def)

lemma int_of_identifier_81189: "int_of_identifier (Some ''81189'') = Inr 81189"
  by (simp add: int_of_identifier_def py_int_81189)

lemma client_getitem_81189: "tvdb_getitem client l 81189 = Inr breaking_bad"
  by (simp add: client_def)

lemma client_getitem_273859: "tvdb_getitem client l 273859 = Inr metastasis"
  by (simp add: client_def)

lemma client_search_breaking_bad:
  "tvdb_search client l (Some ''breaking bad'') =
     Inr [\<lparr>s_id = 81189, s_aliasnames = None\<rparr>, \<lparr>s_id = 273859, s_aliasnames = None\<rparr>]"
  by (simp add: client_def)

lemma client_helpers [simp]: "simplifyString client s = s" "toUnicode client s = s"
  by (simp_all add: client_def)

lemma seasons_breaking_bad:
  "seasons breaking_bad = [(1, [(1, pilot), (5, gray_matter)]), (2, [(1, seven_thirty_seven)])]"
  by (simp add: breaking_bad_def)

lemma episode_selector_season_nine:
  "episode_selector None (Some ''81189:9'') = Some (Some ''81189'', SelInt 9)"
  by (simp add: episode_selector_def py_int_9)

lemma season_nine_key: "episode_cache_key (Some ''81189'') None (SelInt 9) = ''thetvdb.cache.81189.None.9''"
  by (simp add: episode_cache_key_def str_opt_def str_selector_def py_str_int_9)

lemma season_nine_first: "fire client fresh season_nine = (Inr (PList []), stale)"
  by (simp add: season_nine_def getEpisodeInfo_def episode_selector_season_nine season_nine_key
      int_of_identifier_81189 client_getitem_81189 seasons_breaking_bad skips_def stale_def
      truthy_opt_def py_or_def getCache_def fresh_def)

lemma season_nine_second:
  "calls (snd (fire client stale season_nine)) = [GetItem 81189, GetItem 81189]"
  by (simp add: season_nine_def getEpisodeInfo_def episode_selector_season_nine season_nine_key
      int_of_identifier_81189 client_getitem_81189 seasons_breaking_bad skips_def stale_def
      truthy_opt_def py_or_def getCache_def setCache_def log_call_def fresh_def Let_def)

lemma show_info_first: "fire client fresh (show_info (Some ''81189'')) = (Inr (PDict breaking_bad_data), warm)"
  by (simp add: getShowInfo_def getShow_def show_cache_key_def str_opt_def int_of_identifier_81189
      client_getitem_81189 seasons_breaking_bad parseShow_breaking_bad warm_def
      truthy_opt_def py_or_def getCache_def fresh_def)

section \<open>Empty values are omitted\<close>

text \<open>
  C4. Whatever show, season or episode is normalised, every key of the record that
  \<^verbatim>\<open>_parseShow\<close>, \<^verbatim>\<open>_parseSeason\<close> or \<^verbatim>\<open>_parseEpisode\<close> returns carries
  a value that is true in Python's sense: a field whose mapped value is \<^verbatim>\<open>None\<close>,
  zero, an empty string, an empty list or an empty dictionary is not in the record.
\<close>

theorem normalised_records_omit_falsy_values:
  "(fst (parseShow env st sh) = Inr show_data \<longrightarrow> all_truthy show_data)
   \<and> (parseSeason env sh item = Inr season_data \<longrightarrow> all_truthy season_data)
   \<and> (parseEpisode env sh ep = Inr episode_data \<longrightarrow> all_truthy episode_data)"
  by (blast intro: all_truthy_parseShow all_truthy_parseSeason all_truthy_parseEpisode)

theorem normalised_records_omit_falsy_values_witness:
  "fst (parseShow client fresh breaking_bad) = Inr breaking_bad_data
   \<and> all_truthy breaking_bad_data
   \<and> parseSeason client breaking_bad (1, [(1, pilot), (5, gray_matter)]) = Inr season_one_data
   \<and> all_truthy season_one_data
   \<and> parseEpisode client breaking_bad pilot = Inr pilot_data
   \<and> all_truthy pilot_data"
proof -
  have s: "fst (parseShow client fresh breaking_bad) = Inr breaking_bad_data"
    by (simp add: parseShow_breaking_bad)
  have t: "parseSeason client breaking_bad (1, [(1, pilot), (5, gray_matter)]) = Inr season_one_data"
    by (rule parseSeason_one)
  have e: "parseEpisode client breaking_bad pilot = Inr pilot_data"
    by (rule parseEpisode_pilot)
  from s t e
    normalised_records_omit_falsy_values
      [of client fresh breaking_bad breaking_bad_data "(1, [(1, pilot), (5, gray_matter)])"
          season_one_data pilot pilot_data]
  show ?thesis by blast
qed

section \<open>Repeating a lookup\<close>

text \<open>
  C5, as amended. When a public operation returns a value that is true in Python's sense
  (a non-empty record or a non-empty list), that value is in the cache under the
  operation's key, and calling the operation again with the same arguments in the state
  the first call left returns the very same value and leaves the state as it is: the
  cache is unchanged and no client call is added to the record of calls.
\<close>

theorem warm_cache_repeat:
  assumes "fire env st ev = (Inr v, st')" and "truthy v"
  shows "fire env st' ev = (Inr v, st')"
  using assms
  by (cases ev) (auto intro: search_twice getShowInfo_twice getSeasonInfo_twice getEpisodeInfo_twice)

theorem warm_cache_repeat_witness:
  "fire client fresh (show_info (Some ''81189'')) = (Inr (PDict breaking_bad_data), warm)
   \<and> truthy (PDict breaking_bad_data)
   \<and> fire client warm (show_info (Some ''81189'')) = (Inr (PDict breaking_bad_data), warm)"
proof -
  have t: "truthy (PDict breaking_bad_data)"
    by (simp add: breaking_bad_data_def)
  from warm_cache_repeat [OF show_info_first t] show_info_first t
  show ?thesis by simp
qed

text \<open>
  C5 as stated fails where the stored result is empty. For a season the show does not
  have, the first \<^verbatim>\<open>episode.info\<close> stores its result, the empty list, under its
  key; the second call reads that entry as a miss and looks the show up again.
\<close>

theorem stored_empty_result_is_fetched_again:
  "fire client fresh season_nine = (Inr (PList []), stale)
   \<and> map_of (cache stale) ''thetvdb.cache.81189.None.9'' = Some (PList [])
   \<and> calls stale = [GetItem 81189]
   \<and> calls (snd (fire client stale season_nine)) = [GetItem 81189, GetItem 81189]"
  using season_nine_first season_nine_second
  by (simp add: stale_def setCache_def log_call_def fresh_def)

section \<open>The provider without an API key\<close>

text \<open>
  C1. With the empty string as API key, \<^verbatim>\<open>isDisabled\<close> still answers
  \<^verbatim>\<open>None\<close>, so \<^verbatim>\<open>search\<close> goes on: it calls the client five times and
  returns both shows. \<^verbatim>\<open>getShowInfo\<close>, which never asks \<^verbatim>\<open>isDisabled\<close>, looks
  the show up as well.
\<close>

theorem search_without_api_key:
  "api_key without_api_key = []
   \<and> isDisabled without_api_key = PNone
   \<and> fst (search client without_api_key ''breaking bad'' 12 ''en'')
       = Inr (PList [PDict breaking_bad_data, PDict metastasis_data])
   \<and> calls (snd (search client without_api_key ''breaking bad'' 12 ''en''))
       = [Search (Some ''breaking bad''), GetItem 81189, Search (Some ''Breaking Bad''),
          GetItem 273859, Search (Some ''Metastasis'')]
   \<and> fst (getShowInfo client without_api_key (Some ''81189'')) = Inr (PDict breaking_bad_data)
   \<and> calls (snd (getShowInfo client without_api_key (Some ''81189'')))
       = [GetItem 81189, Search (Some ''Breaking Bad'')]"
  by (simp add: search_def isDisabled_def select_language_def search_cache_key_def
      client_search_breaking_bad client_getitem_81189 client_getitem_273859
      parseShow_breaking_bad parseShow_metastasis getCache_def setCache_def log_call_def
      without_api_key_def fresh_def Let_def
      getShowInfo_def getShow_def show_cache_key_def str_opt_def int_of_identifier_81189
      seasons_breaking_bad truthy_opt_def py_or_def)

section \<open>A lookup that fails in the client\<close>

text \<open>
  C3. While the database cannot be reached, the lookup of \<^verbatim>\<open>getSeasonInfo\<close> and of
  \<^verbatim>\<open>getEpisodeInfo\<close> raises \<^verbatim>\<open>tvdb_error\<close>; the handler that should return
  \<^verbatim>\<open>False\<close> first reads the unbound local \<^verbatim>\<open>show\<close>, and the operation ends
  with \<^verbatim>\<open>UnboundLocalError\<close> instead of a value.
\<close>

theorem failed_lookup_escapes:
  "tvdb_getitem unreachable_client ''en'' 81189 = Inl tvdb_error
   \<and> fst (getSeasonInfo unreachable_client fresh (Some ''81189'') []) = Inl UnboundLocalError
   \<and> fst (getEpisodeInfo unreachable_client fresh (Some ''81189'') []) = Inl UnboundLocalError"
  by (simp add: unreachable_client_def getSeasonInfo_def getEpisodeInfo_def season_selector_def
      episode_selector_def season_cache_key_def episode_cache_key_def str_opt_def
      str_selector_def int_of_identifier_81189 lookup_handler_def caught_def
      truthy_opt_def py_or_def getCache_def fresh_def Let_def)

section \<open>Seasons\<close>

lemma season_loop_no_match:
  assumes "\<forall>item\<in>set items. \<not> selects sel (fst item)"
    and "\<forall>item\<in>set items. parseSeason env sh item = Inr (f item)"
  shows "season_loop env key sh sel items result st =
           (Inr (PList (result @ map (\<lambda>item. PDict (f item)) items)),
            setCache st key (PList (result @ map (\<lambda>item. PDict (f item)) items)))"
  using assms by (induction items arbitrary: result) auto

lemma season_loop_match:
  assumes "n \<in> fst ` set items"
    and "\<forall>item\<in>set items. \<exists>r. parseSeason env sh item = Inr r"
  shows "\<exists>item\<in>set items. \<exists>r. fst item = n \<and> parseSeason env sh item = Inr r
           \<and> season_loop env key sh (SelInt n) items result st
               = (Inr (PDict r), setCache st key (PDict r))"
  using assms
proof (induction items arbitrary: result)
  case Nil
  then show ?case by simp
next
  case (Cons item items)
  from Cons.prems(2) obtain r where r: "parseSeason env sh item = Inr r" by auto
  show ?case
  proof (cases "fst item = n")
    case True
    with r show ?thesis by (auto simp: selects_def)
  next
    case False
    with Cons.prems have "n \<in> fst ` set items" "\<forall>item\<in>set items. \<exists>r. parseSeason env sh item = Inr r"
      by auto
    from Cons.IH[OF this, of "result @ [PDict r]"] False r show ?thesis
      by (auto simp: selects_def)
  qed
qed

lemma map_of_drop_falsy:
  "map_of d k = Some v \<Longrightarrow> truthy v \<Longrightarrow> map_of (drop_falsy d) k = Some v"
  by (induction d) (auto simp: drop_falsy_def)

lemma parseSeason_id:
  assumes "map_of (data sh) ''seriesname'' = Some name"
    and "map_of (data sh) ''id'' = Some (Some show_id)"
  shows "\<exists>r. parseSeason env sh item = Inr r
           \<and> map_of r ''id'' = Some (PStr (show_id @ '':'' @ py_str_int (fst item)))"
  using assms
  by (simp add: parseSeason_def show_getitem_def Let_def map_of_drop_falsy)

text \<open>
  C9, as amended. \<^verbatim>\<open>getSeasonInfo\<close> is called with a show identifier and a season selector
  whose part after the colon parses to the number \<open>n\<close>; the cache has no true entry under
  the key, the client returns the show, none of whose seasons has the number \<open>n\<close>, and every
  season normalises (to \<open>f item\<close>). Then the operation returns the list of the normalised
  records of all seasons of the show, in the order of the loop: not the failure sentinel,
  and not the empty list unless the show has no season at all.
\<close>

theorem unmatched_season_selector_returns_all_seasons:
  assumes "truthy_opt identifier"
    and "season_selector (map_of params ''season_identifier'') = Some (SelInt n)"
    and "\<not> truthy (getCache st (season_cache_key identifier (SelInt n)))"
    and "int_of_identifier identifier = Inr i"
    and "tvdb_getitem env (language st) i = Inr sh"
    and "n \<notin> fst ` set (seasons sh)"
    and "\<forall>item\<in>set (seasons sh). parseSeason env sh item = Inr (f item)"
  shows "fst (getSeasonInfo env st identifier params)
           = Inr (PList (map (\<lambda>item. PDict (f item)) (seasons sh)))
         \<and> fst (getSeasonInfo env st identifier params) \<noteq> Inr (PBool False)
         \<and> (seasons sh \<noteq> [] \<longrightarrow> fst (getSeasonInfo env st identifier params) \<noteq> Inr (PList []))"
proof -
  from assms(6) have "\<forall>item\<in>set (seasons sh). \<not> selects (SelInt n) (fst item)"
    by (auto simp: selects_def)
  from season_loop_no_match[OF this assms(7)] assms(1-5)
  have "fst (getSeasonInfo env st identifier params)
           = Inr (PList (map (\<lambda>item. PDict (f item)) (seasons sh)))"
    by (simp add: getSeasonInfo_def py_or_def Let_def)
  then show ?thesis by simp
qed

theorem unmatched_season_selector_returns_all_seasons_witness:
  "(truthy_opt (Some ''81189'')
    \<and> season_selector (map_of [(''season_identifier'', ''81189:9'')] ''season_identifier'')
        = Some (SelInt 9)
    \<and> \<not> truthy (getCache fresh (season_cache_key (Some ''81189'') (SelInt 9)))
    \<and> int_of_identifier (Some ''81189'') = Inr 81189
    \<and> tvdb_getitem client (language fresh) 81189 = Inr breaking_bad
    \<and> 9 \<notin> fst ` set (seasons breaking_bad)
    \<and> seasons breaking_bad
        = [(1, [(1, pilot), (5, gray_matter)]), (2, [(1, seven_thirty_seven)])]
    \<and> parseSeason client breaking_bad (1, [(1, pilot), (5, gray_matter)]) = Inr season_one_data
    \<and> parseSeason client breaking_bad (2, [(1, seven_thirty_seven)]) = Inr season_two_data)
   \<and> fst (getSeasonInfo client fresh (Some ''81189'') [(''season_identifier'', ''81189:9'')])
       = Inr (PList [PDict season_one_data, PDict season_two_data])"
proof -
  let ?f = "\<lambda>item::int \<times> season. if fst item = 1 then season_one_data else season_two_data"
  have h1: "truthy_opt (Some ''81189'')" by (simp add: truthy_opt_def)
  have h2: "season_selector (map_of [(''season_identifier'', ''81189:9'')] ''season_identifier'')
              = Some (SelInt 9)"
    by (simp add: season_selector_def py_int_9)
  have h3: "\<not> truthy (getCache fresh (season_cache_key (Some ''81189'') (SelInt 9)))"
    by (simp add: getCache_def fresh_def)
  have h5: "tvdb_getitem client (language fresh) 81189 = Inr breaking_bad"
    by (rule client_getitem_81189)
  have h6: "9 \<notin> fst ` set (seasons breaking_bad)"
    by (simp add: seasons_breaking_bad)
  have h7: "\<forall>item\<in>set (seasons breaking_bad). parseSeason client breaking_bad item = Inr (?f item)"
    by (simp add: seasons_breaking_bad parseSeason_one parseSeason_two)
  from unmatched_season_selector_returns_all_seasons
         [OF h1 h2 h3 int_of_identifier_81189 h5 h6 h7]
  have "fst (getSeasonInfo client fresh (Some ''81189'') [(''season_identifier'', ''81189:9'')])
          = Inr (PList [PDict season_one_data, PDict season_two_data])"
    by (simp add: seasons_breaking_bad)
  with h1 h2 h3 int_of_identifier_81189 h5 h6 seasons_breaking_bad
    parseSeason_one [of "[(1, pilot), (5, gray_matter)]"]
    parseSeason_two [of "[(1, seven_thirty_seven)]"]
  show ?thesis by simp
qed

lemma py_int_1: "py_int ''1'' = Some 1"
  by (simp add: py_int_def is_space_def is_digit_def digits_val_def digit_val_def)

lemma py_int_01: "py_int ''01'' = Some 1"
  by (simp add: py_int_def is_space_def is_digit_def digits_val_def digit_val_def)

lemma py_int_76290: "py_int ''76290'' = Some 76290"
  by (simp add: py_int_def is_space_def is_digit_def digits_val_def digit_val_def)

lemma seasons_twenty_four: "seasons twenty_four = []"
  by (simp add: twenty_four_def plain_show_def)

text \<open>
  C9 as stated fails in its "not an empty result": for a show without seasons, a selector
  whose number parses matches none of the show's season numbers, and the operation returns
  the empty list.
\<close>

theorem unmatched_season_selector_of_seasonless_show_is_empty:
  "seasons twenty_four = []
   \<and> season_selector (map_of [(''season_identifier'', ''76290:1'')] ''season_identifier'')
       = Some (SelInt 1)
   \<and> tvdb_getitem client ''en'' 76290 = Inr twenty_four
   \<and> fst (getSeasonInfo client fresh (Some ''76290'') [(''season_identifier'', ''76290:1'')])
       = Inr (PList [])"
  by (simp add: seasons_twenty_four season_selector_def py_int_1 getSeasonInfo_def
      season_cache_key_def str_opt_def str_selector_def py_str_int_1 int_of_identifier_def
      py_int_76290 client_def truthy_opt_def py_or_def getCache_def fresh_def Let_def)

lemma getSeasonInfo_selected:
  assumes "truthy_opt identifier"
    and "season_selector (map_of params ''season_identifier'') = Some (SelInt n)"
    and "\<not> truthy (getCache st (season_cache_key identifier (SelInt n)))"
    and "int_of_identifier identifier = Inr i"
    and "tvdb_getitem env (language st) i = Inr sh"
    and "n \<in> fst ` set (seasons sh)"
    and "map_of (data sh) ''seriesname'' = Some name"
    and "map_of (data sh) ''id'' = Some (Some show_id)"
  shows "\<exists>season season_data.
           (n, season) \<in> set (seasons sh)
           \<and> parseSeason env sh (n, season) = Inr season_data
           \<and> fst (getSeasonInfo env st identifier params) = Inr (PDict season_data)
           \<and> map_of season_data ''id'' = Some (PStr (show_id @ '':'' @ py_str_int n))"
proof -
  have ok: "\<forall>item\<in>set (seasons sh). \<exists>r. parseSeason env sh item = Inr r"
    using parseSeason_id[OF assms(7,8)] by blast
  from season_loop_match[OF assms(6) ok]
  obtain item r where item: "item \<in> set (seasons sh)" "fst item = n"
    and r: "parseSeason env sh item = Inr r"
    and loop: "season_loop env (season_cache_key identifier (SelInt n)) sh (SelInt n) (seasons sh) []
                 (log_call st (GetItem i))
               = (Inr (PDict r), setCache (log_call st (GetItem i))
                                   (season_cache_key identifier (SelInt n)) (PDict r))"
    by blast
  from item have m: "(n, snd item) \<in> set (seasons sh) \<and> item = (n, snd item)"
    by (cases item) auto
  from parseSeason_id[OF assms(7,8), of env item] r item(2)
  have id: "map_of r ''id'' = Some (PStr (show_id @ '':'' @ py_str_int n))" by auto
  from loop assms(1-5)
  have "fst (getSeasonInfo env st identifier params) = Inr (PDict r)"
    by (simp add: getSeasonInfo_def py_or_def Let_def)
  with m r id show ?thesis by metis
qed

lemma season_selector_parts:
  assumes "py_split CHR '':'' selector = a # b # rest" and "py_int b = Some n"
  shows "season_selector (Some selector) = Some (SelInt n)"
proof -
  from assms(1) have "selector \<noteq> []" by auto
  with assms show ?thesis by (simp add: season_selector_def)
qed

text \<open>
  C6, as amended. \<^verbatim>\<open>getSeasonInfo\<close> is called with a show identifier and a season
  selector whose second part, when the selector is split at its colons, parses to the
  number \<open>n\<close>; the cache has no true entry under the key and the client returns the show,
  which has a name attribute, the id \<open>show_id\<close> and a season with the number \<open>n\<close>. Then
  the operation returns one record, a dictionary and not a list: the normalised record of
  that season, whose \<^verbatim>\<open>id\<close> is the string made of the show's id, a colon and the
  decimal form of \<open>n\<close>. That string is the selector when the selector is written in
  exactly that form, and only then.
\<close>

theorem matched_season_selector_returns_that_season:
  assumes "truthy_opt identifier"
    and "map_of params ''season_identifier'' = Some selector"
    and "py_split CHR '':'' selector = a # b # rest"
    and "py_int b = Some n"
    and "\<not> truthy (getCache st (season_cache_key identifier (SelInt n)))"
    and "int_of_identifier identifier = Inr i"
    and "tvdb_getitem env (language st) i = Inr sh"
    and "n \<in> fst ` set (seasons sh)"
    and "map_of (data sh) ''seriesname'' = Some name"
    and "map_of (data sh) ''id'' = Some (Some show_id)"
  shows "\<exists>season season_data.
           (n, season) \<in> set (seasons sh)
           \<and> parseSeason env sh (n, season) = Inr season_data
           \<and> fst (getSeasonInfo env st identifier params) = Inr (PDict season_data)
           \<and> map_of season_data ''id'' = Some (PStr (show_id @ '':'' @ py_str_int n))
           \<and> (map_of season_data ''id'' = Some (PStr selector)
                \<longleftrightarrow> selector = show_id @ '':'' @ py_str_int n)"
proof -
  from season_selector_parts[OF assms(3,4)] assms(2)
  have s: "season_selector (map_of params ''season_identifier'') = Some (SelInt n)" by simp
  from getSeasonInfo_selected[OF assms(1) s assms(5-10)]
  obtain season season_data where
    "(n, season) \<in> set (seasons sh)"
    "parseSeason env sh (n, season) = Inr season_data"
    "fst (getSeasonInfo env st identifier params) = Inr (PDict season_data)"
    "map_of season_data ''id'' = Some (PStr (show_id @ '':'' @ py_str_int n))"
    by blast
  then show ?thesis by (intro exI[of _ season] exI[of _ season_data]) auto
qed

theorem matched_season_selector_returns_that_season_witness:
  "(truthy_opt (Some ''81189'')
    \<and> map_of [(''season_identifier'', ''81189:1'')] ''season_identifier'' = Some ''81189:1''
    \<and> py_split CHR '':'' ''81189:1'' = [''81189'', ''1'']
    \<and> py_int ''1'' = Some 1
    \<and> \<not> truthy (getCache fresh (season_cache_key (Some ''81189'') (SelInt 1)))
    \<and> int_of_identifier (Some ''81189'') = Inr 81189
    \<and> tvdb_getitem client (language fresh) 81189 = Inr breaking_bad
    \<and> 1 \<in> fst ` set (seasons breaking_bad)
    \<and> map_of (data breaking_bad) ''seriesname'' = Some (Some ''Breaking Bad'')
    \<and> map_of (data breaking_bad) ''id'' = Some (Some ''81189''))
   \<and> (\<exists>season season_data.
          (1, season) \<in> set (seasons breaking_bad)
          \<and> parseSeason client breaking_bad (1, season) = Inr season_data
          \<and> fst (getSeasonInfo client fresh (Some ''81189'') [(''season_identifier'', ''81189:1'')])
              = Inr (PDict season_data)
          \<and> map_of season_data ''id'' = Some (PStr ''81189:1''))"
proof -
  have h1: "truthy_opt (Some ''81189'')" by (simp add: truthy_opt_def)
  have h2: "map_of [(''season_identifier'', ''81189:1'')] ''season_identifier'' = Some ''81189:1''"
    by simp
  have h3: "py_split CHR '':'' ''81189:1'' = [''81189'', ''1'']" by simp
  have h5: "\<not> truthy (getCache fresh (season_cache_key (Some ''81189'') (SelInt 1)))"
    by (simp add: getCache_def fresh_def)
  have h7: "tvdb_getitem client (language fresh) 81189 = Inr breaking_bad"
    by (rule client_getitem_81189)
  have h8: "1 \<in> fst ` set (seasons breaking_bad)"
    by (simp add: seasons_breaking_bad)
  have h9: "map_of (data breaking_bad) ''seriesname'' = Some (Some ''Breaking Bad'')"
    by (simp add: breaking_bad_def)
  have h10: "map_of (data breaking_bad) ''id'' = Some (Some ''81189'')"
    by (simp add: breaking_bad_def)
  from matched_season_selector_returns_that_season
         [OF h1 h2 h3 py_int_1 h5 int_of_identifier_81189 h7 h8 h9 h10]
  have "\<exists>season season_data.
          (1, season) \<in> set (seasons breaking_bad)
          \<and> parseSeason client breaking_bad (1, season) = Inr season_data
          \<and> fst (getSeasonInfo client fresh (Some ''81189'') [(''season_identifier'', ''81189:1'')])
              = Inr (PDict season_data)
          \<and> map_of season_data ''id'' = Some (PStr ''81189:1'')"
    by (simp add: py_str_int_1)
  with h1 h2 h3 py_int_1 h5 int_of_identifier_81189 h7 h8 h9 h10 show ?thesis by blast
qed

text \<open>
  C6 as stated fails: the selector \<^verbatim>\<open>81189:01\<close> splits into two parts, its second
  part parses to 1 and the show has a season 1, yet the \<^verbatim>\<open>id\<close> of the returned
  season record is \<^verbatim>\<open>81189:1\<close>, not the selector.
\<close>

theorem season_id_is_not_the_selector:
  "py_split CHR '':'' ''81189:01'' = [''81189'', ''01'']
   \<and> py_int ''01'' = Some 1
   \<and> seasons breaking_bad = [(1, [(1, pilot), (5, gray_matter)]), (2, [(1, seven_thirty_seven)])]
   \<and> fst (getSeasonInfo client fresh (Some ''81189'') [(''season_identifier'', ''81189:01'')])
       = Inr (PDict season_one_data)
   \<and> map_of season_one_data ''id'' = Some (PStr ''81189:1'')
   \<and> map_of season_one_data ''id'' \<noteq> Some (PStr ''81189:01'')"
  by (simp add: py_int_01 seasons_breaking_bad getSeasonInfo_def season_selector_def
      season_cache_key_def str_opt_def str_selector_def py_str_int_1 int_of_identifier_81189
      client_getitem_81189 selects_def parseSeason_one season_one_data_def season_data_of_def
      truthy_opt_def py_or_def getCache_def fresh_def Let_def)

section \<open>Episodes\<close>

lemma is_selected_no_match:
  "map_of ep ''id'' = Some v \<Longrightarrow> v \<noteq> Some (toUnicode env e) \<Longrightarrow> is_selected env (Some e) ep = Inr False"
  by (simp add: is_selected_def episode_getitem_def)

lemma episode_loop_no_match:
  assumes "\<forall>ep\<in>set eps. is_selected env episode_identifier ep = Inr False"
    and "\<forall>ep\<in>set eps. parseEpisode env sh ep = Inr (f ep)"
  shows "episode_loop env sh episode_identifier eps result
           = Inr (Inr (result @ map (\<lambda>ep. PDict (f ep)) eps))"
  using assms by (induction eps arbitrary: result) auto

lemma episodes_loop_no_match:
  assumes "\<forall>ep\<in>set (concat (map (\<lambda>item. if skips sel (fst item) then [] else map snd (snd item)) items)).
             is_selected env episode_identifier ep = Inr False \<and> parseEpisode env sh ep = Inr (f ep)"
  shows "episodes_loop env key sh sel episode_identifier items result st
           = (Inr (PList (result @ map (\<lambda>ep. PDict (f ep))
                 (concat (map (\<lambda>item. if skips sel (fst item) then [] else map snd (snd item)) items)))),
              setCache st key (PList (result @ map (\<lambda>ep. PDict (f ep))
                 (concat (map (\<lambda>item. if skips sel (fst item) then [] else map snd (snd item)) items)))))"
  using assms
proof (induction items arbitrary: result)
  case Nil
  then show ?case by simp
next
  case (Cons item items)
  show ?case
  proof (cases "skips sel (fst item)")
    case True
    with Cons show ?thesis by simp
  next
    case False
    with Cons.prems
    have here: "\<forall>ep\<in>set (map snd (snd item)). is_selected env episode_identifier ep = Inr False"
      "\<forall>ep\<in>set (map snd (snd item)). parseEpisode env sh ep = Inr (f ep)"
      by auto
    from Cons.prems
    have rest: "\<forall>ep\<in>set (concat (map (\<lambda>item. if skips sel (fst item) then [] else map snd (snd item)) items)).
             is_selected env episode_identifier ep = Inr False \<and> parseEpisode env sh ep = Inr (f ep)"
      by auto
    from episode_loop_no_match[OF here] Cons.IH[OF rest] False
    show ?thesis by simp
  qed
qed

lemma visited_breaking_bad:
  "visited_episodes SelNone breaking_bad = [pilot, gray_matter, seven_thirty_seven]"
  by (simp add: visited_episodes_def seasons_breaking_bad skips_def)

lemma episode_ids:
  "map_of pilot ''id'' = Some (Some ''349232'')"
  "map_of gray_matter ''id'' = Some (Some ''349238'')"
  "map_of seven_thirty_seven ''id'' = Some (Some ''438917'')"
  by (simp_all add: pilot_def gray_matter_def seven_thirty_seven_def)

lemma episodes_differ: "pilot \<noteq> gray_matter" "pilot \<noteq> seven_thirty_seven" "gray_matter \<noteq> seven_thirty_seven"
  using episode_ids by auto

text \<open>
  C2, as amended. \<^verbatim>\<open>getEpisodeInfo\<close> is called with an episode selector \<open>e\<close>; the
  call is not turned away, the cache has no true entry under the key, the client returns
  the show, every episode of the show in the seasons that the season number lets through
  has an id, none of these ids equals the selector, and every such episode normalises (to
  \<open>f ep\<close>). Then the operation returns the list of the normalised records of all these
  episodes, in the order of the loops. It is the empty list only when there is no such
  episode.
\<close>

theorem unmatched_episode_selector_returns_all_episodes:
  assumes "truthy_opt identifier \<or> map_of params ''season_identifier'' \<noteq> None"
    and "episode_selector identifier (map_of params ''season_identifier'') = Some (show_identifier, sel)"
    and "map_of params ''episode_identifier'' = Some e"
    and "\<not> truthy (getCache st (episode_cache_key show_identifier (Some e) sel))"
    and "int_of_identifier show_identifier = Inr i"
    and "tvdb_getitem env (language st) i = Inr sh"
    and "\<forall>ep\<in>set (visited_episodes sel sh). \<exists>v. map_of ep ''id'' = Some v \<and> v \<noteq> Some (toUnicode env e)"
    and "\<forall>ep\<in>set (visited_episodes sel sh). parseEpisode env sh ep = Inr (f ep)"
  shows "fst (getEpisodeInfo env st identifier params)
           = Inr (PList (map (\<lambda>ep. PDict (f ep)) (visited_episodes sel sh)))"
proof -
  from assms(7,8)
  have "\<forall>ep\<in>set (concat (map (\<lambda>item. if skips sel (fst item) then [] else map snd (snd item)) (seasons sh))).
          is_selected env (Some e) ep = Inr False \<and> parseEpisode env sh ep = Inr (f ep)"
    unfolding visited_episodes_def by (auto dest!: bspec intro: is_selected_no_match)
  from episodes_loop_no_match[OF this] assms(1-6)
  show ?thesis
    by (auto simp: getEpisodeInfo_def py_or_def Let_def visited_episodes_def)
qed

theorem unmatched_episode_selector_returns_all_episodes_witness:
  "((truthy_opt (Some ''81189'') \<or> map_of [(''episode_identifier'', ''999'')] ''season_identifier'' \<noteq> None)
    \<and> episode_selector (Some ''81189'') (map_of [(''episode_identifier'', ''999'')] ''season_identifier'')
        = Some (Some ''81189'', SelNone)
    \<and> map_of [(''episode_identifier'', ''999'')] ''episode_identifier'' = Some ''999''
    \<and> \<not> truthy (getCache fresh (episode_cache_key (Some ''81189'') (Some ''999'') SelNone))
    \<and> int_of_identifier (Some ''81189'') = Inr 81189
    \<and> tvdb_getitem client (language fresh) 81189 = Inr breaking_bad
    \<and> visited_episodes SelNone breaking_bad = [pilot, gray_matter, seven_thirty_seven]
    \<and> toUnicode client ''999'' = ''999''
    \<and> map_of pilot ''id'' = Some (Some ''349232'')
    \<and> map_of gray_matter ''id'' = Some (Some ''349238'')
    \<and> map_of seven_thirty_seven ''id'' = Some (Some ''438917'')
    \<and> parseEpisode client breaking_bad pilot = Inr pilot_data
    \<and> parseEpisode client breaking_bad gray_matter = Inr gray_matter_data
    \<and> parseEpisode client breaking_bad seven_thirty_seven = Inr seven_thirty_seven_data)
   \<and> fst (getEpisodeInfo client fresh (Some ''81189'') [(''episode_identifier'', ''999'')])
       = Inr (PList [PDict pilot_data, PDict gray_matter_data, PDict seven_thirty_seven_data])"
proof -
  let ?f = "\<lambda>ep. if ep = pilot then pilot_data
                 else if ep = gray_matter then gray_matter_data
                 else seven_thirty_seven_data"
  let ?p = "[(''episode_identifier'', ''999'')]"
  have h1: "truthy_opt (Some ''81189'') \<or> map_of ?p ''season_identifier'' \<noteq> None"
    by (simp add: truthy_opt_def)
  have h2: "episode_selector (Some ''81189'') (map_of ?p ''season_identifier'')
              = Some (Some ''81189'', SelNone)"
    by (simp add: episode_selector_def)
  have h3: "map_of ?p ''episode_identifier'' = Some ''999''" by simp
  have h4: "\<not> truthy (getCache fresh (episode_cache_key (Some ''81189'') (Some ''999'') SelNone))"
    by (simp add: getCache_def fresh_def)
  have h6: "tvdb_getitem client (language fresh) 81189 = Inr breaking_bad"
    by (rule client_getitem_81189)
  have h7: "\<forall>ep\<in>set (visited_episodes SelNone breaking_bad).
              \<exists>v. map_of ep ''id'' = Some v \<and> v \<noteq> Some (toUnicode client ''999'')"
    by (simp add: visited_breaking_bad episode_ids)
  have h8: "\<forall>ep\<in>set (visited_episodes SelNone breaking_bad). parseEpisode client breaking_bad ep = Inr (?f ep)"
    using episodes_differ
    by (simp add: visited_breaking_bad parseEpisode_pilot parseEpisode_gray_matter
        parseEpisode_seven_thirty_seven)
  from unmatched_episode_selector_returns_all_episodes
         [OF h1 h2 h3 h4 int_of_identifier_81189 h6 h7 h8]
  have "fst (getEpisodeInfo client fresh (Some ''81189'') ?p)
          = Inr (PList [PDict pilot_data, PDict gray_matter_data, PDict seven_thirty_seven_data])"
    using episodes_differ by (simp add: visited_breaking_bad)
  with h1 h2 h3 h4 int_of_identifier_81189 h6 visited_breaking_bad episode_ids
    parseEpisode_pilot parseEpisode_gray_matter parseEpisode_seven_thirty_seven
  show ?thesis by simp
qed

lemma episode_getitem_ids:
  "episode_getitem pilot ''id'' = Inr (Some ''349232'')"
  "episode_getitem gray_matter ''id'' = Inr (Some ''349238'')"
  "episode_getitem seven_thirty_seven ''id'' = Inr (Some ''438917'')"
  by (simp_all add: episode_getitem_def episode_ids)

text \<open>
  C2 as stated fails: the selector \<^verbatim>\<open>999\<close> is the id of none of the three episodes of
  the show, and the operation returns the three episodes, not the empty list.
\<close>

theorem unmatched_episode_selector_is_not_empty:
  "visited_episodes SelNone breaking_bad = [pilot, gray_matter, seven_thirty_seven]
   \<and> map_of pilot ''id'' = Some (Some ''349232'')
   \<and> map_of gray_matter ''id'' = Some (Some ''349238'')
   \<and> map_of seven_thirty_seven ''id'' = Some (Some ''438917'')
   \<and> fst (getEpisodeInfo client fresh (Some ''81189'') [(''episode_identifier'', ''999'')])
       = Inr (PList [PDict pilot_data, PDict gray_matter_data, PDict seven_thirty_seven_data])
   \<and> fst (getEpisodeInfo client fresh (Some ''81189'') [(''episode_identifier'', ''999'')])
       \<noteq> Inr (PList [])"
  by (simp add: visited_breaking_bad episode_ids getEpisodeInfo_def episode_selector_def
      episode_cache_key_def str_opt_def str_selector_def int_of_identifier_81189
      client_getitem_81189 seasons_breaking_bad skips_def is_selected_def episode_getitem_ids
      parseEpisode_pilot parseEpisode_gray_matter parseEpisode_seven_thirty_seven
      truthy_opt_def py_or_def getCache_def fresh_def Let_def)

section \<open>The limit of a search\<close>

lemma parseShow_fst_language:
  "language st1 = language st2 \<Longrightarrow> fst (parseShow env st1 sh) = fst (parseShow env st2 sh)"
  by (auto simp: parseShow_def Let_def split: sum.splits)

lemma search_loop_unbounded:
  assumes "limit \<le> 0" and "0 \<le> nr"
    and "\<forall>s\<in>set raw. \<exists>sh. tvdb_getitem env (language st) (s_id s) = Inr sh
                          \<and> fst (parseShow env st sh) = Inr (f s)"
  shows "fst (search_loop env key limit raw nr b results st)
           = Inr (PList (results @ map (\<lambda>s. PDict (f s)) raw))"
  using assms
proof (induction raw arbitrary: nr b results st)
  case Nil
  then show ?case by simp
next
  case (Cons show_info raw)
  let ?st1 = "log_call st (GetItem (s_id show_info))"
  from Cons.prems(3) obtain sh where sh: "tvdb_getitem env (language st) (s_id show_info) = Inr sh"
    and p: "fst (parseShow env st sh) = Inr (f show_info)" by auto
  obtain r st2 where r: "parseShow env ?st1 sh = (r, st2)"
    by (cases "parseShow env ?st1 sh")
  have "fst (parseShow env ?st1 sh) = fst (parseShow env st sh)"
    by (rule parseShow_fst_language) simp
  with p r have r': "r = Inr (f show_info)" by simp
  from r have l: "language st2 = language st"
    using parseShow_state by fastforce
  from Cons.prems(1,2) have ne: "nr + 1 \<noteq> limit" by simp
  have "\<forall>s\<in>set raw. \<exists>sh. tvdb_getitem env (language st2) (s_id s) = Inr sh
                          \<and> fst (parseShow env st2 sh) = Inr (f s)"
  proof
    fix s assume "s \<in> set raw"
    with Cons.prems(3) obtain sh' where a: "tvdb_getitem env (language st) (s_id s) = Inr sh'"
      and b: "fst (parseShow env st sh') = Inr (f s)" by auto
    have "fst (parseShow env st2 sh') = fst (parseShow env st sh')"
      by (rule parseShow_fst_language) (rule l)
    with a b l show "\<exists>sh. tvdb_getitem env (language st2) (s_id s) = Inr sh
                          \<and> fst (parseShow env st2 sh) = Inr (f s)" by simp
  qed
  from Cons.IH[OF Cons.prems(1) _ this, of "nr + 1" True "results @ [PDict (f show_info)]"] Cons.prems(2)
  have "fst (search_loop env key limit raw (nr + 1) True (results @ [PDict (f show_info)]) st2)
          = Inr (PList (results @ PDict (f show_info) # map (\<lambda>s. PDict (f s)) raw))"
    by simp
  with sh r r' ne show ?case by (simp add: Let_def)
qed

text \<open>
  C10. \<^verbatim>\<open>search\<close> is called with a limit that is zero or negative; the cache has no
  true entry under the key, the client's search returns the summaries \<open>raw\<close>, and for each
  of them the client returns the show, which normalises (to \<open>f s\<close>). Then the operation
  returns the normalised records of all summaries of \<open>raw\<close>, as many as the search gave:
  the counter is 1 or more when it is compared with the limit, so the loop never breaks.
\<close>

theorem search_with_nonpositive_limit_is_not_truncated:
  assumes "limit \<le> 0"
    and "\<not> truthy (getCache (select_language env st lang)
                       (search_cache_key (simplifyString env q) limit))"
    and "tvdb_search env (language (select_language env st lang)) (Some (simplifyString env q))
           = Inr raw"
    and "\<forall>s\<in>set raw. \<exists>sh.
           tvdb_getitem env (language (select_language env st lang)) (s_id s) = Inr sh
           \<and> fst (parseShow env (select_language env st lang) sh) = Inr (f s)"
  shows "fst (search env st q limit lang) = Inr (PList (map (\<lambda>s. PDict (f s)) raw))"
proof (cases "raw = []")
  case True
  with assms(2,3) show ?thesis
    by (simp add: search_def isDisabled_def Let_def)
next
  case False
  let ?st1 = "select_language env st lang"
  let ?st2 = "log_call ?st1 (Search (Some (simplifyString env q)))"
  have "\<forall>s\<in>set raw. \<exists>sh. tvdb_getitem env (language ?st2) (s_id s) = Inr sh
                          \<and> fst (parseShow env ?st2 sh) = Inr (f s)"
  proof
    fix s assume "s \<in> set raw"
    with assms(4) obtain sh where a: "tvdb_getitem env (language ?st1) (s_id s) = Inr sh"
      and b: "fst (parseShow env ?st1 sh) = Inr (f s)" by auto
    have "fst (parseShow env ?st2 sh) = fst (parseShow env ?st1 sh)"
      by (rule parseShow_fst_language) simp
    with a b show "\<exists>sh. tvdb_getitem env (language ?st2) (s_id s) = Inr sh
                          \<and> fst (parseShow env ?st2 sh) = Inr (f s)" by simp
  qed
  from search_loop_unbounded[OF assms(1) _ this, of 0
         "search_cache_key (simplifyString env q) limit" False "[]"]
  have "fst (search_loop env (search_cache_key (simplifyString env q) limit) limit raw 0 False [] ?st2)
          = Inr (PList (map (\<lambda>s. PDict (f s)) raw))"
    by simp
  with False assms(2,3) show ?thesis
    by (simp add: search_def isDisabled_def Let_def)
qed

theorem search_with_nonpositive_limit_is_not_truncated_witness:
  "((0::int) \<le> 0
    \<and> \<not> truthy (getCache (select_language client fresh ''en'')
                    (search_cache_key (simplifyString client ''breaking bad'') 0))
    \<and> tvdb_search client (language (select_language client fresh ''en''))
          (Some (simplifyString client ''breaking bad''))
        = Inr [\<lparr>s_id = 81189, s_aliasnames = None\<rparr>, \<lparr>s_id = 273859, s_aliasnames = None\<rparr>]
    \<and> tvdb_getitem client (language (select_language client fresh ''en'')) 81189
        = Inr breaking_bad
    \<and> fst (parseShow client (select_language client fresh ''en'') breaking_bad)
        = Inr breaking_bad_data
    \<and> tvdb_getitem client (language (select_language client fresh ''en'')) 273859
        = Inr metastasis
    \<and> fst (parseShow client (select_language client fresh ''en'') metastasis)
        = Inr metastasis_data)
   \<and> fst (search client fresh ''breaking bad'' 0 ''en'')
       = Inr (PList [PDict breaking_bad_data, PDict metastasis_data])"
proof -
  let ?raw = "[\<lparr>s_id = 81189, s_aliasnames = None\<rparr>, \<lparr>s_id = 273859, s_aliasnames = None\<rparr>]"
  let ?f = "\<lambda>s. if s_id s = 81189 then breaking_bad_data else metastasis_data"
  have h1: "(0::int) \<le> 0" by simp
  have h2: "\<not> truthy (getCache (select_language client fresh ''en'')
                    (search_cache_key (simplifyString client ''breaking bad'') 0))"
    by (simp add: select_language_def getCache_def fresh_def)
  have h3: "tvdb_search client (language (select_language client fresh ''en''))
              (Some (simplifyString client ''breaking bad'')) = Inr ?raw"
    by (simp add: client_search_breaking_bad)
  have h4: "\<forall>s\<in>set ?raw. \<exists>sh.
              tvdb_getitem client (language (select_language client fresh ''en'')) (s_id s) = Inr sh
              \<and> fst (parseShow client (select_language client fresh ''en'') sh) = Inr (?f s)"
    by (simp add: client_getitem_81189 client_getitem_273859 parseShow_breaking_bad
        parseShow_metastasis)
  from search_with_nonpositive_limit_is_not_truncated [OF h1 h2 h3 h4]
  have "fst (search client fresh ''breaking bad'' 0 ''en'')
          = Inr (PList [PDict breaking_bad_data, PDict metastasis_data])"
    by simp
  with h1 h2 h3 show ?thesis
    by (simp add: client_getitem_81189 client_getitem_273859 parseShow_breaking_bad
        parseShow_metastasis)
qed

section \<open>Genres\<close>














section \<open>Cache keys of different operations\<close>

lemma client_search_24:
  "tvdb_search client l (Some ''24'') = Inr [\<lparr>s_id = 76290, s_aliasnames = None\<rparr>]"
  by (simp add: client_def)

lemma client_getitem_76290: "tvdb_getitem client l 76290 = Inr twenty_four"
  by (simp add: client_def)

lemma search_24: "search client fresh ''24'' 1 ''en'' = (Inr (PList [PDict twenty_four_data]), searched)"
  by (simp add: search_def isDisabled_def select_language_def search_cache_key_def py_str_int_1
      client_search_24 client_getitem_76290 parseShow_twenty_four getCache_def searched_def
      fresh_def Let_def)

text \<open>
  C8. The key of \<^verbatim>\<open>search\<close> for a query and a limit is the key of
  \<^verbatim>\<open>getSeasonInfo\<close> for the simplified query as show identifier and the limit as
  season number. So when a search has returned a non-empty list, \<^verbatim>\<open>getSeasonInfo\<close>
  called in the state it left, with the simplified query as identifier and a selector that
  parses to the limit, returns that list of shows, without any client call.
\<close>

theorem search_result_returned_by_getSeasonInfo:
  assumes "search env st q limit lang = (Inr v, st')" and "truthy v"
    and "simplifyString env q \<noteq> []"
    and "season_selector (map_of params ''season_identifier'') = Some (SelInt limit)"
  shows "search_cache_key (simplifyString env q) limit
           = season_cache_key (Some (simplifyString env q)) (SelInt limit)
         \<and> getSeasonInfo env st' (Some (simplifyString env q)) params = (Inr v, st')"
proof -
  have k: "search_cache_key (simplifyString env q) limit
             = season_cache_key (Some (simplifyString env q)) (SelInt limit)"
    by (simp add: search_cache_key_def season_cache_key_def str_opt_def str_selector_def)
  from search_repeat[OF assms(1,2)] k
  have "getCache st' (season_cache_key (Some (simplifyString env q)) (SelInt limit)) = v"
    by simp
  with assms(2-4) k show ?thesis
    by (simp add: getSeasonInfo_def truthy_opt_def py_or_def Let_def)
qed

theorem search_result_returned_by_getSeasonInfo_witness:
  "(search client fresh ''24'' 1 ''en'' = (Inr (PList [PDict twenty_four_data]), searched)
    \<and> truthy (PList [PDict twenty_four_data])
    \<and> simplifyString client ''24'' \<noteq> []
    \<and> season_selector (map_of [(''season_identifier'', ''24:1'')] ''season_identifier'')
        = Some (SelInt 1))
   \<and> search_cache_key ''24'' 1 = ''thetvdb.cache.24.1''
   \<and> season_cache_key (Some ''24'') (SelInt 1) = ''thetvdb.cache.24.1''
   \<and> getSeasonInfo client searched (Some ''24'') [(''season_identifier'', ''24:1'')]
       = (Inr (PList [PDict twenty_four_data]), searched)"
proof -
  have h2: "truthy (PList [PDict twenty_four_data])" by simp
  have h3: "simplifyString client ''24'' \<noteq> []" by simp
  have h4: "season_selector (map_of [(''season_identifier'', ''24:1'')] ''season_identifier'')
              = Some (SelInt 1)"
    by (simp add: season_selector_def py_int_def is_space_def is_digit_def digits_val_def
        digit_val_def)
  have k: "search_cache_key ''24'' 1 = ''thetvdb.cache.24.1''"
    by (simp add: search_cache_key_def py_str_int_1)
  from search_result_returned_by_getSeasonInfo [OF search_24 h2 h3 h4] k
  have "season_cache_key (Some ''24'') (SelInt 1) = ''thetvdb.cache.24.1''"
    "getSeasonInfo client searched (Some ''24'') [(''season_identifier'', ''24:1'')]
       = (Inr (PList [PDict twenty_four_data]), searched)"
    by simp_all
  with search_24 h2 h3 h4 k show ?thesis by blast
qed

end
